theory Spec2Isabelle
  imports
    Complex_Main
    "HOL-Library.Sublist"
    "HOL-Library.Char_ord"
    "HOL-Library.List_Lexorder"
begin

section \<open>Python values and exceptions\<close>

text \<open>
  The script \<^verbatim>\<open>app.py\<close> is a form that sends one profile to a classifier and shows
  the predicted salary bracket with two statistics of the reference table.
  Every \<^verbatim>\<open>raise\<close> of the script is a value here.  \<open>exn\<close> stands for the subclasses
  of Python's \<^verbatim>\<open>Exception\<close>, which \<^verbatim>\<open>except Exception\<close> catches; \<open>raised\<close> adds the
  form library's stop signal, which derives from \<^verbatim>\<open>BaseException\<close> and which
  \<^verbatim>\<open>except Exception\<close> lets through.
\<close>

datatype exn =
    KeyError
  | ValueError
  | IndexError
  | AttributeError
  | ZeroDivisionError
  | OverflowError
  | StreamlitAPIException
  | OtherException string

datatype raised = Exception exn | StopException

text \<open>
  A label that a predictor returns is a Python object: a string, or something else
  (a number, when the classes of the classifier are numbers), which has no
  \<^verbatim>\<open>split\<close> method.
\<close>

datatype pyobj = PyStr string | PyInt int

section \<open>\<^verbatim>\<open>str.split(sep)\<close> and the displayed bracket\<close>

text \<open>
  \<^verbatim>\<open>s.split(sep)\<close> scans \<open>s\<close> from the left; at each position where \<open>sep\<close> starts
  it closes the current piece and resumes after the separator.  \<open>cur\<close> is the piece
  being read.  An empty separator raises \<^verbatim>\<open>ValueError\<close>.
\<close>

fun split_from :: "string \<Rightarrow> string \<Rightarrow> string \<Rightarrow> string list" where
  "split_from sep cur [] = [cur]"
| "split_from sep cur (c # cs) =
     (if sep \<noteq> [] \<and> prefix sep (c # cs)
      then cur # split_from sep [] (drop (length sep) (c # cs))
      else split_from sep (cur @ [c]) cs)"

definition split :: "string \<Rightarrow> string \<Rightarrow> exn + string list" where
  "split s sep = (if sep = [] then Inl ValueError else Inr (split_from sep [] s))"

text \<open>\<^verbatim>\<open>xs[-1]\<close>: the last element, \<^verbatim>\<open>IndexError\<close> on the empty list.\<close>

definition getitem_last :: "'a list \<Rightarrow> exn + 'a" where
  "getitem_last xs = (if xs = [] then Inl IndexError else Inr (last xs))"

text \<open>\<^verbatim>\<open>xs[0]\<close>: the first element, \<^verbatim>\<open>IndexError\<close> on the empty array.\<close>

definition getitem_first :: "'a list \<Rightarrow> exn + 'a" where
  "getitem_first xs = (case xs of [] \<Rightarrow> Inl IndexError | x # _ \<Rightarrow> Inr x)"

text \<open>
  Line 218: \<^verbatim>\<open>salario_limpo = salario_pred.split("- ")[-1]\<close>.  A label that is not a
  string has no \<^verbatim>\<open>split\<close>: \<^verbatim>\<open>AttributeError\<close>.
\<close>

definition separator :: string where
  "separator = ''- ''"

definition salario_limpo :: "pyobj \<Rightarrow> exn + string" where
  "salario_limpo salario_pred =
     (case salario_pred of
        PyInt _ \<Rightarrow> Inl AttributeError
      | PyStr s \<Rightarrow>
          (case split s separator of
             Inl e \<Rightarrow> Inl e
           | Inr parts \<Rightarrow> getitem_last parts))"

section \<open>The reference table and the submitted profile\<close>

text \<open>
  One line of \<^verbatim>\<open>data/template.csv\<close>, with the columns the script reads.  The form
  returns one value for each of the same columns, so a submitted profile is a \<open>row\<close>
  as well.  The table is the list of its lines, in file order.
\<close>

record row =
  idade :: int
  genero :: string
  pcd :: string
  ufOndeMora :: string
  cargoAtual :: string
  nivel :: string
  tempoDeExperienciaDados :: string
  tempoDeExperienciaEmTi :: string

type_synonym dataframe = "row list"

text \<open>
  Lines 204 to 213: the one-line frame built from the widgets, as the ordered list of
  its columns, each with the value of its single line.
\<close>

datatype cell = IntCell int | StrCell string

type_synonym frame1 = "(string \<times> cell) list"

definition user_data :: "row \<Rightarrow> frame1" where
  "user_data p =
     [(''idade'', IntCell (idade p)),
      (''genero'', StrCell (genero p)),
      (''pcd'', StrCell (pcd p)),
      (''ufOndeMora'', StrCell (ufOndeMora p)),
      (''cargoAtual'', StrCell (cargoAtual p)),
      (''nivel'', StrCell (nivel p)),
      (''tempoDeExperienciaDados'', StrCell (tempoDeExperienciaDados p)),
      (''tempoDeExperienciaEmTi'', StrCell (tempoDeExperienciaEmTi p))]"

section \<open>The predictor and the prediction\<close>

text \<open>
  The loaded model is opaque: the script reads its attribute
  \<^verbatim>\<open>feature_names_in_\<close> (absent on a model fitted without column names, which is
  \<^verbatim>\<open>AttributeError\<close>) and calls its \<^verbatim>\<open>predict\<close>, which returns an array of labels
  or raises.
\<close>

record predictor =
  feature_names_in :: "string list option"
  predict :: "frame1 \<Rightarrow> exn + pyobj list"

text \<open>
  \<^verbatim>\<open>df[names]\<close>: the columns called \<open>names\<close>, in the order of \<open>names\<close>;
  \<^verbatim>\<open>KeyError\<close> when a name is not a column.
\<close>

fun getitem_columns :: "frame1 \<Rightarrow> string list \<Rightarrow> exn + frame1" where
  "getitem_columns df [] = Inr []"
| "getitem_columns df (n # ns) =
     (case map_of df n of
        None \<Rightarrow> Inl KeyError
      | Some v \<Rightarrow>
          (case getitem_columns df ns of
             Inl e \<Rightarrow> Inl e
           | Inr cols \<Rightarrow> Inr ((n, v) # cols)))"

text \<open>Line 217: \<^verbatim>\<open>salario_pred = model.predict(user_data[model.feature_names_in_])[0]\<close>.\<close>

definition model_input :: "predictor \<Rightarrow> frame1 \<Rightarrow> exn + frame1" where
  "model_input model df =
     (case feature_names_in model of
        None \<Rightarrow> Inl AttributeError
      | Some names \<Rightarrow> getitem_columns df names)"

definition salario_pred :: "predictor \<Rightarrow> frame1 \<Rightarrow> exn + pyobj" where
  "salario_pred model df =
     (case model_input model df of
        Inl e \<Rightarrow> Inl e
      | Inr X \<Rightarrow>
          (case predict model X of
             Inl e \<Rightarrow> Inl e
           | Inr labels \<Rightarrow> getitem_first labels))"

text \<open>Lines 217 and 218 together: from the profile to the displayed bracket.\<close>

definition predict_bracket :: "predictor \<Rightarrow> row \<Rightarrow> exn + string" where
  "predict_bracket model p =
     (case salario_pred model (user_data p) of
        Inl e \<Rightarrow> Inl e
      | Inr label \<Rightarrow> salario_limpo label)"

section \<open>Binary floating point\<close>

text \<open>
  The share of a job title is a Python \<^verbatim>\<open>float\<close>, a number of the binary64 format.
  The floats that occur here are not negative, so a finite one is a mantissa \<open>m\<close> and
  an exponent \<open>e\<close> that stand for \<open>m * 2 ^ e\<close>; the infinity and the value that is not
  a number complete the type.  Exact results are kept as a numerator and a
  denominator, and every operation rounds its exact result to the nearest float, a tie
  going to the even mantissa.
\<close>

datatype pyfloat = Finite nat int | Infinity | NaN

definition finite_val :: "nat \<Rightarrow> int \<Rightarrow> rat" where
  "finite_val m e = of_nat m * 2 powi e"

text \<open>The integer nearest to \<open>N / D\<close>, a tie going to the even one.\<close>

definition round_half_even :: "nat \<Rightarrow> nat \<Rightarrow> nat" where
  "round_half_even N D =
     (let q = N div D; r = N mod D
      in if 2 * r < D then q
         else if D < 2 * r then q + 1
         else if even q then q else q + 1)"

text \<open>\<^verbatim>\<open>int.bit_length()\<close>: the number of binary digits.\<close>

fun bit_length :: "nat \<Rightarrow> nat" where
  "bit_length n = (if n = 0 then 0 else Suc (bit_length (n div 2)))"

declare bit_length.simps [simp del]

text \<open>The fraction \<open>N / D\<close> times \<open>2 ^ s\<close>, again as a numerator and a denominator.\<close>

definition scaled :: "nat \<Rightarrow> nat \<Rightarrow> int \<Rightarrow> nat \<times> nat" where
  "scaled N D s = (if 0 \<le> s then (N * 2 ^ nat s, D) else (N, D * 2 ^ nat (- s)))"

text \<open>
  The shift \<open>s\<close> that brings a positive \<open>N / D\<close> into the range of a 53-bit mantissa,
  \<open>2 ^ 52 \<le> N / D * 2 ^ s < 2 ^ 53\<close>.  The exponent of the format does not go below
  \<open>-1074\<close>, which bounds the shift and leaves fewer bits to the smallest numbers.
\<close>

definition binade_shift :: "nat \<Rightarrow> nat \<Rightarrow> int" where
  "binade_shift N D =
     (let s1 = 52 - (int (bit_length N) - int (bit_length D))
      in min 1074 (case scaled N D s1 of (N1, D1) \<Rightarrow> if N1 < 2 ^ 52 * D1 then s1 + 1 else s1))"

text \<open>
  The float nearest to \<open>N / D\<close>, for a positive \<open>D\<close>.  A result of \<open>2 ^ 1024\<close> or more is
  beyond the format.
\<close>

definition round_float :: "nat \<Rightarrow> nat \<Rightarrow> pyfloat" where
  "round_float N D =
     (if N = 0 then Finite 0 0
      else
        (let s = binade_shift N D;
             m = (case scaled N D s of (N', D') \<Rightarrow> round_half_even N' D')
         in if 971 < - s \<or> (- s = 971 \<and> 2 ^ 53 \<le> m) then Infinity else Finite m (- s)))"

text \<open>
  Python's \<^verbatim>\<open>a / b\<close> on integers, here on counts: \<^verbatim>\<open>ZeroDivisionError\<close> when \<open>b\<close> is
  zero, else the float nearest to the quotient, or \<^verbatim>\<open>OverflowError\<close> when that is
  beyond the format.
\<close>

definition truediv :: "nat \<Rightarrow> nat \<Rightarrow> exn + pyfloat" where
  "truediv a b =
     (if b = 0 then Inl ZeroDivisionError
      else
        (case round_float a b of
           Finite m e \<Rightarrow> Inr (Finite m e)
         | Infinity \<Rightarrow> Inl OverflowError
         | NaN \<Rightarrow> Inl OverflowError))"

text \<open>The product of two floats: the float nearest to the exact product.\<close>

fun fmul :: "pyfloat \<Rightarrow> pyfloat \<Rightarrow> pyfloat" where
  "fmul (Finite m1 e1) (Finite m2 e2) =
     (case scaled (m1 * m2) 1 (e1 + e2) of (N, D) \<Rightarrow> round_float N D)"
| "fmul NaN y = NaN"
| "fmul x NaN = NaN"
| "fmul Infinity (Finite m e) = (if m = 0 then NaN else Infinity)"
| "fmul (Finite m e) Infinity = (if m = 0 then NaN else Infinity)"
| "fmul Infinity Infinity = Infinity"

text \<open>
  An integer operand of a float operation becomes a float first; for the integers of
  the script the conversion is exact.
\<close>

definition float_of_nat :: "nat \<Rightarrow> pyfloat" where
  "float_of_nat n = round_float n 1"

text \<open>
  Line 269, the format \<^verbatim>\<open>:.1f\<close>: the multiple of one tenth nearest to the float, a tie
  going to the even tenth, written with the integer part, a point and one digit.  The
  float is what is rounded, not the exact share: 23 lines of 80 give a float just
  below 28.75, written 28.7.
\<close>

fun digits :: "nat \<Rightarrow> string" where
  "digits n =
     (if n < 10 then [''0123456789'' ! n]
      else digits (n div 10) @ [''0123456789'' ! (n mod 10)])"

fun format_1f :: "pyfloat \<Rightarrow> string" where
  "format_1f (Finite m e) =
     (case scaled m 1 e of
        (N, D) \<Rightarrow>
          (let t = round_half_even (10 * N) D
           in digits (t div 10) @ ''.'' @ digits (t mod 10)))"
| "format_1f Infinity = ''inf''"
| "format_1f NaN = ''nan''"

section \<open>Contextual statistics\<close>

text \<open>
  Lines 252 to 255: the lines of the table with the profile's level and state.  The
  cells of the categorical columns are strings; a table with missing cells is outside
  this model.
\<close>

definition similar_profiles :: "dataframe \<Rightarrow> string \<Rightarrow> string \<Rightarrow> dataframe" where
  "similar_profiles data_template nv uf =
     filter (\<lambda>r. nivel r = nv \<and> ufOndeMora r = uf) data_template"

text \<open>Line 264.\<close>

definition cargo_count :: "dataframe \<Rightarrow> string \<Rightarrow> nat" where
  "cargo_count data_template cargo =
     length (filter (\<lambda>r. cargoAtual r = cargo) data_template)"

text \<open>Line 265: \<^verbatim>\<open>cargo_percentage = (cargo_count / len(data_template)) * 100\<close>.\<close>

definition cargo_percentage :: "dataframe \<Rightarrow> string \<Rightarrow> exn + pyfloat" where
  "cargo_percentage data_template cargo =
     (case truediv (cargo_count data_template cargo) (length data_template) of
        Inl e \<Rightarrow> Inl e
      | Inr q \<Rightarrow> Inr (fmul q (float_of_nat 100)))"

section \<open>What the page shows and logs\<close>

text \<open>
  The calls on the form library and on the logger that depend on the data, in the
  order the script makes them.  Fixed decoration (headings, the disclaimer) is left
  out.  A computation is the list of the calls it made and how it ended.
\<close>

datatype message =
    ModelNotFound
  | ModelLoadError exn
  | CheckRegistryHint
  | ModelLoaded int
  | PredictionError exn

datatype metric_value = Count nat | Text string

datatype event =
    StError message
  | StInfo message
  | StSuccess string
  | StMetric string metric_value
  | StPlotlyChart
  | LogInfo message
  | LogError message

type_synonym 'a script = "event list \<times> (raised + 'a)"

text \<open>
  \<^verbatim>\<open>try: body except Exception as e: handler\<close>.  What the body showed stays on the
  page; the stop signal is not an \<^verbatim>\<open>Exception\<close> and goes through.
\<close>

definition try_except :: "'a script \<Rightarrow> (exn \<Rightarrow> 'a script) \<Rightarrow> 'a script" where
  "try_except body handler =
     (case body of
        (evs, Inl (Exception e)) \<Rightarrow> (case handler e of (evs', r) \<Rightarrow> (evs @ evs', r))
      | (evs, Inl StopException) \<Rightarrow> (evs, Inl StopException)
      | (evs, Inr v) \<Rightarrow> (evs, Inr v))"

text \<open>Lines 216 to 276, the body of the \<^verbatim>\<open>try\<close>.\<close>

definition submitted_body :: "predictor \<Rightarrow> dataframe \<Rightarrow> row \<Rightarrow> bool \<Rightarrow> unit script" where
  "submitted_body model data_template p show_chart =
     (case predict_bracket model p of
        Inl e \<Rightarrow> ([], Inl (Exception e))
      | Inr bracket \<Rightarrow>
          (let shown =
                 [StSuccess bracket,
                  StMetric ''Perfis Similares na Base''
                    (Count (length (similar_profiles data_template (nivel p) (ufOndeMora p))))]
           in case cargo_percentage data_template (cargoAtual p) of
                Inl e \<Rightarrow> (shown, Inl (Exception e))
              | Inr pct \<Rightarrow>
                  (shown
                     @ [StMetric ''Representatividade do Cargo'' (Text (format_1f pct @ ''%''))]
                     @ (if show_chart then [StPlotlyChart] else []),
                   Inr ())))"

text \<open>Lines 215 to 280: the \<^verbatim>\<open>try\<close> with its handler.\<close>

definition on_submit :: "predictor \<Rightarrow> dataframe \<Rightarrow> row \<Rightarrow> bool \<Rightarrow> unit script" where
  "on_submit model data_template p show_chart =
     try_except (submitted_body model data_template p show_chart)
       (\<lambda>e. ([StError (PredictionError e), LogError (PredictionError e)], Inr ()))"

section \<open>Loading the model\<close>

text \<open>
  The registry is outside the script.  A search returns the registered models or
  raises; loading the model at a version returns a predictor or raises.  The version
  of a registered model is a string: \<open>Numeric n\<close> is one that \<^verbatim>\<open>int\<close> reads as \<open>n\<close>,
  \<open>NonNumeric\<close> one that \<^verbatim>\<open>int\<close> rejects with \<^verbatim>\<open>ValueError\<close>.
\<close>

datatype version = Numeric int | NonNumeric

record registered_model =
  name :: string
  latest_versions :: "version list"

record registry =
  search_registered_models :: "exn + registered_model list"
  sklearn_load_model :: "int \<Rightarrow> exn + predictor"

fun int_of_version :: "version \<Rightarrow> exn + int" where
  "int_of_version (Numeric n) = Inr n"
| "int_of_version NonNumeric = Inl ValueError"

text \<open>\<^verbatim>\<open>[int(i.version) for i in vs]\<close>: the first version that fails ends the loop.\<close>

fun ints_of_versions :: "version list \<Rightarrow> exn + int list" where
  "ints_of_versions [] = Inr []"
| "ints_of_versions (v # vs) =
     (case int_of_version v of
        Inl e \<Rightarrow> Inl e
      | Inr n \<Rightarrow>
          (case ints_of_versions vs of
             Inl e \<Rightarrow> Inl e
           | Inr ns \<Rightarrow> Inr (n # ns)))"

text \<open>\<^verbatim>\<open>max(xs)\<close>: \<^verbatim>\<open>ValueError\<close> on the empty list.\<close>

definition max_of :: "int list \<Rightarrow> exn + int" where
  "max_of xs = (case xs of [] \<Rightarrow> Inl ValueError | x # rest \<Rightarrow> Inr (fold max rest x))"

text \<open>
  Lines 25 to 36, the body of the \<^verbatim>\<open>try\<close> of \<^verbatim>\<open>load_model\<close>.  \<^verbatim>\<open>models[0]\<close> is
  the first registered model with the configured name.  The \<^verbatim>\<open>st.stop()\<close> of line 30
  is inside the \<^verbatim>\<open>try\<close>; its stop signal passes the handler of line 38.
\<close>

definition load_model_body :: "registry \<Rightarrow> (predictor \<times> int) script" where
  "load_model_body reg =
     (case search_registered_models reg of
        Inl e \<Rightarrow> ([], Inl (Exception e))
      | Inr found \<Rightarrow>
          (case filter (\<lambda>i. name i = ''salario-model'') found of
             [] \<Rightarrow> ([StError ModelNotFound], Inl StopException)
           | m # _ \<Rightarrow>
               (case ints_of_versions (latest_versions m) of
                  Inl e \<Rightarrow> ([], Inl (Exception e))
                | Inr ns \<Rightarrow>
                    (case max_of ns of
                       Inl e \<Rightarrow> ([], Inl (Exception e))
                     | Inr last_version \<Rightarrow>
                         (case sklearn_load_model reg last_version of
                            Inl e \<Rightarrow> ([], Inl (Exception e))
                          | Inr model \<Rightarrow>
                              ([LogInfo (ModelLoaded last_version)],
                               Inr (model, last_version)))))))"

text \<open>Lines 22 to 41.  Both paths of failure end in \<^verbatim>\<open>st.stop()\<close>.\<close>

definition load_model :: "registry \<Rightarrow> (predictor \<times> int) script" where
  "load_model reg =
     try_except (load_model_body reg)
       (\<lambda>e. ([StError (ModelLoadError e), StInfo CheckRegistryHint], Inl StopException))"

section \<open>The form\<close>

text \<open>\<^verbatim>\<open>Series.unique()\<close>: the distinct values, in order of first appearance.\<close>

fun unique_from :: "'a list \<Rightarrow> 'a list \<Rightarrow> 'a list" where
  "unique_from seen [] = []"
| "unique_from seen (x # xs) =
     (if x \<in> set seen then unique_from seen xs else x # unique_from (x # seen) xs)"

definition unique :: "'a list \<Rightarrow> 'a list" where
  "unique xs = unique_from [] xs"

text \<open>\<^verbatim>\<open>Series.sort_values()\<close> on a column of strings: ascending order.\<close>

definition sort_values :: "string list \<Rightarrow> string list" where
  "sort_values xs = sort xs"

text \<open>Lines 140 to 191: the options of the seven select boxes.\<close>

definition genero_options :: "dataframe \<Rightarrow> string list" where
  "genero_options data_template = unique (map genero data_template)"

definition pcd_options :: "dataframe \<Rightarrow> string list" where
  "pcd_options data_template = unique (map pcd data_template)"

definition ufs :: "dataframe \<Rightarrow> string list" where
  "ufs data_template = unique (sort_values (map ufOndeMora data_template))"

definition cargos :: "dataframe \<Rightarrow> string list" where
  "cargos data_template = unique (sort_values (map cargoAtual data_template))"

definition niveis :: "dataframe \<Rightarrow> string list" where
  "niveis data_template = unique (sort_values (map nivel data_template))"

definition temp_dados :: "dataframe \<Rightarrow> string list" where
  "temp_dados data_template = unique (sort_values (map tempoDeExperienciaDados data_template))"

definition temp_ti :: "dataframe \<Rightarrow> string list" where
  "temp_ti data_template = unique (sort_values (map tempoDeExperienciaEmTi data_template))"

text \<open>
  Lines 132 to 138: the number input of the age.  \<^verbatim>\<open>Series.min()\<close> of a column
  with no line is not a number, and \<^verbatim>\<open>int\<close> of it raises \<^verbatim>\<open>ValueError\<close>.
  The form library checks the arguments of a number input: a default below the lower
  bound or above the upper bound is refused with its \<^verbatim>\<open>StreamlitAPIException\<close>.
  Neither call is inside a \<^verbatim>\<open>try\<close>, so either exception ends the script before any
  form is shown.
\<close>

record number_widget =
  min_value :: int
  max_value :: int
  default_value :: int

definition series_min :: "int list \<Rightarrow> int option" where
  "series_min xs = (case xs of [] \<Rightarrow> None | x # rest \<Rightarrow> Some (fold min rest x))"

definition number_input :: "int \<Rightarrow> int \<Rightarrow> int \<Rightarrow> exn + number_widget" where
  "number_input lo hi v =
     (if v < lo \<or> hi < v then Inl StreamlitAPIException
      else Inr \<lparr>min_value = lo, max_value = hi, default_value = v\<rparr>)"

definition idade_input :: "dataframe \<Rightarrow> exn + number_widget" where
  "idade_input data_template =
     (case series_min (map idade data_template) of
        None \<Rightarrow> Inl ValueError
      | Some m \<Rightarrow> number_input m 100 30)"

text \<open>
  What the widgets let through: a select box returns one of its options, a number
  input an integer between its two bounds.
\<close>

definition number_input_returns :: "number_widget \<Rightarrow> int \<Rightarrow> bool" where
  "number_input_returns w v = (min_value w \<le> v \<and> v \<le> max_value w)"

definition selectbox_returns :: "string list \<Rightarrow> string \<Rightarrow> bool" where
  "selectbox_returns options v = (v \<in> set options)"

definition form_returns :: "dataframe \<Rightarrow> row \<Rightarrow> bool" where
  "form_returns data_template p =
     ((case idade_input data_template of
         Inl e \<Rightarrow> False
       | Inr w \<Rightarrow> number_input_returns w (idade p))
      \<and> selectbox_returns (genero_options data_template) (genero p)
      \<and> selectbox_returns (pcd_options data_template) (pcd p)
      \<and> selectbox_returns (ufs data_template) (ufOndeMora p)
      \<and> selectbox_returns (cargos data_template) (cargoAtual p)
      \<and> selectbox_returns (niveis data_template) (nivel p)
      \<and> selectbox_returns (temp_dados data_template) (tempoDeExperienciaDados p)
      \<and> selectbox_returns (temp_ti data_template) (tempoDeExperienciaEmTi p))"

section \<open>Example inputs\<close>

text \<open>
  A predictor that declares the eight columns of the form and answers every input
  with the same label, and one profile.
\<close>

definition all_columns :: "string list" where
  "all_columns =
     [''idade'', ''genero'', ''pcd'', ''ufOndeMora'', ''cargoAtual'', ''nivel'',
      ''tempoDeExperienciaDados'', ''tempoDeExperienciaEmTi'']"

fun constant_predict :: "string \<Rightarrow> frame1 \<Rightarrow> exn + pyobj list" where
  "constant_predict label X = Inr [PyStr label]"

definition constant_model :: "string \<Rightarrow> predictor" where
  "constant_model label =
     \<lparr>feature_names_in = Some all_columns, predict = constant_predict label\<rparr>"

definition engineer :: row where
  "engineer =
     \<lparr>idade = 31, genero = ''Feminino'', pcd = ''Nao'', ufOndeMora = ''SP'',
      cargoAtual = ''Data Engineer'', nivel = ''Pleno'',
      tempoDeExperienciaDados = ''de 3 a 4 anos'',
      tempoDeExperienciaEmTi = ''de 5 a 6 anos''\<rparr>"

text \<open>
  A second profile, and two tables: one of three lines, and one of a hundred lines of
  which ten have the job title of the first profile.
\<close>

definition scientist :: row where
  "scientist =
     \<lparr>idade = 24, genero = ''Masculino'', pcd = ''Nao'', ufOndeMora = ''RJ'',
      cargoAtual = ''Data Scientist'', nivel = ''Senior'',
      tempoDeExperienciaDados = ''de 1 a 2 anos'',
      tempoDeExperienciaEmTi = ''de 1 a 2 anos''\<rparr>"

definition small_table :: dataframe where
  "small_table = [engineer, scientist, engineer]"

definition hundred_rows :: dataframe where
  "hundred_rows = replicate 10 engineer @ replicate 90 scientist"


definition senior_table :: dataframe where
  "senior_table = [engineer, engineer]"

definition relocated :: row where
  "relocated = engineer\<lparr>ufOndeMora := ''RJ''\<rparr>"

text \<open>
  A predictor whose \<^verbatim>\<open>predict\<close> raises, one that declares a column the form does
  not have, and one that declares two columns in an order of its own and accepts
  nothing else.
\<close>

fun raising_predict :: "frame1 \<Rightarrow> exn + pyobj list" where
  "raising_predict X = Inl (OtherException ''predict failed'')"

definition raising_model :: predictor where
  "raising_model = \<lparr>feature_names_in = Some all_columns, predict = raising_predict\<rparr>"

definition stale_model :: predictor where
  "stale_model =
     \<lparr>feature_names_in = Some [''idade'', ''salario''],
      predict = constant_predict ''Faixa - R$ 6.000-12.000''\<rparr>"

fun echo_predict :: "frame1 \<Rightarrow> exn + pyobj list" where
  "echo_predict X =
     (if X = [(''nivel'', StrCell ''Pleno''), (''idade'', IntCell 31)]
      then Inr [PyStr ''Faixa - R$ 6.000-12.000'']
      else Inl (OtherException ''unexpected columns''))"

definition two_column_model :: predictor where
  "two_column_model =
     \<lparr>feature_names_in = Some [''nivel'', ''idade''], predict = echo_predict\<rparr>"

text \<open>
  Registries: one that holds the model, one that does not, and one that holds it but
  fails to load it.
\<close>

definition other_entry :: registered_model where
  "other_entry = \<lparr>name = ''churn-model'', latest_versions = [Numeric 7]\<rparr>"

definition salario_entry :: registered_model where
  "salario_entry =
     \<lparr>name = ''salario-model'', latest_versions = [Numeric 2, Numeric 5, Numeric 3]\<rparr>"

fun load_any :: "int \<Rightarrow> exn + predictor" where
  "load_any v = Inr (constant_model ''Faixa - R$ 6.000-12.000'')"

fun load_refused :: "int \<Rightarrow> exn + predictor" where
  "load_refused v = Inl (OtherException ''connection refused'')"

definition good_registry :: registry where
  "good_registry =
     \<lparr>search_registered_models = Inr [other_entry, salario_entry],
      sklearn_load_model = load_any\<rparr>"

definition registry_without_model :: registry where
  "registry_without_model =
     \<lparr>search_registered_models = Inr [other_entry], sklearn_load_model = load_any\<rparr>"

definition registry_refusing_load :: registry where
  "registry_refusing_load =
     \<lparr>search_registered_models = Inr [other_entry, salario_entry],
      sklearn_load_model = load_refused\<rparr>"

section \<open>Properties of the split\<close>

lemma split_from_not_Nil: "split_from sep cur s \<noteq> []"
  by (induction sep cur s rule: split_from.induct) auto

lemma split_from_absent:
  "\<not> sublist sep s \<Longrightarrow> split_from sep cur s = [cur @ s]"
proof (induction sep cur s rule: split_from.induct)
  case (1 sep cur)
  show ?case by simp
next
  case (2 sep cur c cs)
  from "2.prems" have np: "\<not> prefix sep (c # cs)" and ns: "\<not> sublist sep cs"
    by (auto simp: sublist_Cons_right)
  with "2.IH"(2) show ?case by simp
qed

lemma last_split_from:
  assumes ab: "a \<noteq> b"
  shows "s = pre @ [a, b] @ post \<Longrightarrow> \<not> sublist [a, b] post \<Longrightarrow>
         last (split_from [a, b] cur s) = post"
proof (induction "[a, b]" cur s arbitrary: pre rule: split_from.induct)
  case (1 cur)
  then show ?case by simp
next
  case (2 cur c cs)
  show ?case
  proof (cases "prefix [a, b] (c # cs)")
    case True
    then obtain rest where cs: "c # cs = a # b # rest" by (auto simp: prefix_def)
    show ?thesis
    proof (cases pre)
      case Nil
      with "2.prems" cs have "rest = post" by simp
      with cs "2.prems"(2) True show ?thesis
        by (simp add: split_from_absent split_from_not_Nil)
    next
      case (Cons p pre')
      with "2.prems"(1) cs ab obtain pre'' where "pre' = b # pre''"
        by (cases pre') auto
      with Cons "2.prems"(1) cs have "drop (length [a, b]) (c # cs) = pre'' @ [a, b] @ post"
        by simp
      from "2.hyps"(1)[OF _ this "2.prems"(2)] True show ?thesis
        by (simp add: split_from_not_Nil)
    qed
  next
    case False
    with "2.prems"(1) obtain pre' where "pre = c # pre'" "cs = pre' @ [a, b] @ post"
      by (cases pre) auto
    from False have "split_from [a, b] cur (c # cs) = split_from [a, b] (cur @ [c]) cs"
      by auto
    moreover from False have "\<not> ([a, b] \<noteq> [] \<and> prefix [a, b] (c # cs))" by blast
    ultimately show ?thesis
      using "2.hyps"(2)[OF _ \<open>cs = pre' @ [a, b] @ post\<close> "2.prems"(2)] by simp
  qed
qed

lemma separator_chars: "separator = [CHR ''-'', CHR '' '']"
  by (simp add: separator_def)

lemma salario_limpo_PyStr:
  "salario_limpo (PyStr s) = Inr (last (split_from separator [] s))"
  by (simp add: salario_limpo_def split_def getitem_last_def split_from_not_Nil separator_def)

lemma last_split_separator:
  "s = pre @ separator @ post \<Longrightarrow> \<not> sublist separator post \<Longrightarrow>
   last (split_from separator cur s) = post"
  unfolding separator_chars
  by (rule last_split_from) simp_all

text \<open>A string that contains the separator has a last occurrence of it.\<close>

lemma last_occurrence:
  "sep \<noteq> [] \<Longrightarrow> sublist sep s \<Longrightarrow> \<exists>pre post. s = pre @ sep @ post \<and> \<not> sublist sep post"
proof (induction s)
  case Nil
  then show ?case by simp
next
  case (Cons c cs)
  show ?case
  proof (cases "sublist sep cs")
    case True
    with Cons obtain pre post where "cs = pre @ sep @ post" "\<not> sublist sep post" by blast
    then have "c # cs = (c # pre) @ sep @ post" by simp
    with \<open>\<not> sublist sep post\<close> show ?thesis by blast
  next
    case False
    with Cons.prems(2) have "prefix sep (c # cs)" by (simp add: sublist_Cons_right)
    then obtain post where p: "c # cs = sep @ post" by (auto simp: prefix_def)
    with Cons.prems(1) have "suffix post cs"
      by (cases sep) (auto simp: suffix_def)
    with False have "\<not> sublist sep post"
      by (meson sublist_order.order_trans suffix_imp_sublist)
    with p show ?thesis by (metis append_Nil)
  qed
qed

lemma salario_limpo_no_separator:
  "salario_limpo (PyStr s) = Inr b \<Longrightarrow> \<not> sublist separator b"
proof (cases "sublist separator s")
  case True
  assume r: "salario_limpo (PyStr s) = Inr b"
  from True obtain pre post where s: "s = pre @ separator @ post" "\<not> sublist separator post"
    using last_occurrence[of separator s] by (auto simp: separator_def)
  with r show ?thesis by (simp add: salario_limpo_PyStr last_split_separator)
next
  case False
  assume r: "salario_limpo (PyStr s) = Inr b"
  with False show ?thesis by (simp add: salario_limpo_PyStr split_from_absent)
qed

lemma salario_limpo_empty_iff:
  "salario_limpo (PyStr s) = Inr b \<Longrightarrow> b = [] \<longleftrightarrow> s = [] \<or> suffix separator s"
proof (cases "sublist separator s")
  case True
  assume r: "salario_limpo (PyStr s) = Inr b"
  from True obtain pre post where s: "s = pre @ separator @ post" "\<not> sublist separator post"
    using last_occurrence[of separator s] by (auto simp: separator_def)
  with r have b: "b = post" by (simp add: salario_limpo_PyStr last_split_separator)
  have "suffix separator s \<longleftrightarrow> post = []"
  proof
    assume "post = []" with s show "suffix separator s" by (simp add: suffix_def)
  next
    assume suf: "suffix separator s"
    show "post = []"
    proof (rule ccontr)
      assume ne: "post \<noteq> []"
      then obtain q z where post: "post = q @ [z]" by (metis rev_exhaust)
      show False
      proof (cases q rule: rev_cases)
        case Nil
        with suf s post show ?thesis
          by (auto simp: separator_chars suffix_def append_eq_append_conv2
                Cons_eq_append_conv append_eq_Cons_conv)
      next
        case (snoc q' y)
        with suf s post have "suffix separator post"
          by (auto simp: separator_chars suffix_def)
        with s(2) show ?thesis by (simp add: suffix_imp_sublist)
      qed
    qed
  qed
  moreover from s have "s \<noteq> []" by (simp add: separator_def)
  ultimately show ?thesis using b by simp
next
  case False
  assume r: "salario_limpo (PyStr s) = Inr b"
  with False have "b = s" by (simp add: salario_limpo_PyStr split_from_absent)
  moreover from False have "\<not> suffix separator s" using suffix_imp_sublist by blast
  ultimately show ?thesis by simp
qed

lemma on_submit_shows_bracket:
  "predict_bracket model p = Inr b \<Longrightarrow>
   \<exists>rest. fst (on_submit model data_template p show_chart) =
     StSuccess b
       # StMetric ''Perfis Similares na Base''
           (Count (length (similar_profiles data_template (nivel p) (ufOndeMora p))))
       # rest"
  by (auto simp: on_submit_def submitted_body_def try_except_def Let_def split: sum.splits)

lemma salario_pred_constant_model:
  "salario_pred (constant_model label) (user_data p) = Inr (PyStr label)"
  by (simp add: salario_pred_def model_input_def constant_model_def all_columns_def
        user_data_def getitem_first_def)

section \<open>Properties of the prediction step\<close>

lemma predict_bracket_Inr_label:
  "predict_bracket model p = Inr b \<Longrightarrow>
   \<exists>label. salario_pred model (user_data p) = Inr (PyStr label)"
  by (cases "salario_pred model (user_data p)")
     (auto simp: predict_bracket_def salario_limpo_def split: pyobj.splits)

lemma predict_bracket_constant_faixa:
  "predict_bracket (constant_model ''Faixa - R$ 6.000-12.000'') p = Inr ''R$ 6.000-12.000''"
  by (simp add: predict_bracket_def salario_pred_constant_model salario_limpo_def split_def
        separator_def getitem_last_def)

lemma getitem_columns_Inr:
  "getitem_columns df names = Inr X \<Longrightarrow> map fst X = names \<and> set X \<subseteq> set df"
proof (induction names arbitrary: X)
  case Nil
  then show ?case by simp
next
  case (Cons n ns)
  then show ?case
    by (auto split: option.splits sum.splits dest: map_of_SomeD)
qed

lemma getitem_columns_present:
  "set names \<subseteq> fst ` set df \<Longrightarrow> \<exists>X. getitem_columns df names = Inr X"
proof (induction names)
  case Nil
  then show ?case by simp
next
  case (Cons n ns)
  then obtain X where X: "getitem_columns df ns = Inr X" by auto
  from Cons.prems have "map_of df n \<noteq> None" by (simp add: map_of_eq_None_iff)
  then obtain v where "map_of df n = Some v" by blast
  with X show ?case by simp
qed

lemma getitem_columns_missing:
  "\<not> set names \<subseteq> fst ` set df \<Longrightarrow> getitem_columns df names = Inl KeyError"
proof (induction names)
  case Nil
  then show ?case by simp
next
  case (Cons n ns)
  show ?case
  proof (cases "map_of df n")
    case None
    then show ?thesis by simp
  next
    case (Some v)
    then have "n \<in> fst ` set df" by (metis map_of_eq_None_iff option.distinct(1))
    with Cons.prems have "\<not> set ns \<subseteq> fst ` set df" by simp
    with Cons.IH Some show ?thesis by simp
  qed
qed

section \<open>Properties of the floating-point operations\<close>

lemma bit_length_bounds:
  "0 < n \<Longrightarrow> 2 ^ (bit_length n - 1) \<le> n \<and> n < 2 ^ bit_length n"
proof (induction n rule: bit_length.induct)
  case (1 n)
  show ?case
  proof (cases "n div 2 = 0")
    case True
    with "1.prems" have "n = 1" by (simp add: div_eq_0_iff)
    then show ?thesis by (simp add: bit_length.simps)
  next
    case False
    then have pos: "0 < n div 2" by simp
    from "1.IH"[OF _ pos] "1.prems"
    have lo: "2 ^ (bit_length (n div 2) - 1) \<le> n div 2" and hi: "n div 2 < 2 ^ bit_length (n div 2)"
      by simp_all
    from pos have bl: "0 < bit_length (n div 2)" by (subst bit_length.simps) simp
    have "bit_length n = Suc (bit_length (n div 2))" using "1.prems" by (subst bit_length.simps) simp
    moreover from lo bl have "2 ^ bit_length (n div 2) \<le> n"
    proof -
      from bl obtain k where k: "bit_length (n div 2) = Suc k" by (cases "bit_length (n div 2)") auto
      with lo have "2 ^ k \<le> n div 2" by simp
      then have "2 * 2 ^ k \<le> 2 * (n div 2)" by simp
      also have "\<dots> \<le> n" by simp
      finally show ?thesis using k by simp
    qed
    moreover from hi have "n < 2 * 2 ^ bit_length (n div 2)" by linarith
    ultimately show ?thesis by simp
  qed
qed

lemma round_half_even_twice:
  assumes "0 < D"
  shows "\<bar>2 * int (round_half_even N D) * int D - 2 * int N\<bar> \<le> int D"
proof -
  define q r where "q = N div D" and "r = N mod D"
  have N: "int N = int q * int D + int r"
    unfolding q_def r_def by (metis div_mult_mod_eq of_nat_add of_nat_mult)
  have r: "r < D" unfolding r_def using assms by simp
  have cases: "round_half_even N D = q \<and> 2 * r \<le> D \<or> round_half_even N D = q + 1 \<and> D \<le> 2 * r"
    unfolding round_half_even_def q_def [symmetric] r_def [symmetric] Let_def
    by auto
  then show ?thesis
  proof
    assume a: "round_half_even N D = q \<and> 2 * r \<le> D"
    then have "2 * int (round_half_even N D) * int D - 2 * int N = - 2 * int r"
      using N by (simp add: algebra_simps)
    with a show ?thesis by simp
  next
    assume a: "round_half_even N D = q + 1 \<and> D \<le> 2 * r"
    then have "2 * int (round_half_even N D) * int D - 2 * int N = 2 * int D - 2 * int r"
      using N by (simp add: algebra_simps)
    with a r show ?thesis by simp
  qed
qed

lemma round_half_even_near:
  assumes "0 < D"
  shows "\<bar>of_nat (round_half_even N D) - (of_nat N / of_nat D :: rat)\<bar> \<le> 1 / 2"
proof -
  let ?m = "round_half_even N D"
  from round_half_even_twice[OF assms, of N]
  have "\<bar>of_int (2 * int ?m * int D - 2 * int N) :: rat\<bar> \<le> of_int (int D)"
    by (metis of_int_abs of_int_le_iff)
  then have "\<bar>2 * of_nat ?m * of_nat D - 2 * of_nat N :: rat\<bar> \<le> of_nat D"
    by simp
  moreover have "2 * of_nat ?m * of_nat D - 2 * of_nat N
      = (2 * of_nat D) * (of_nat ?m - (of_nat N / of_nat D :: rat))"
    using assms by (simp add: field_simps)
  ultimately have "\<bar>(2 * of_nat D) * (of_nat ?m - (of_nat N / of_nat D :: rat))\<bar> \<le> of_nat D"
    by simp
  then have "(2 * of_nat D) * \<bar>of_nat ?m - (of_nat N / of_nat D :: rat)\<bar> \<le> of_nat D"
    by (simp add: abs_mult)
  then show ?thesis using assms by (simp add: field_simps)
qed

lemma round_half_even_le:
  assumes "0 < D" "N \<le> K * D"
  shows "round_half_even N D \<le> K"
proof (cases "N div D < K")
  case True
  then show ?thesis by (auto simp: round_half_even_def Let_def)
next
  case False
  from assms have "N div D \<le> K"
    by (metis div_le_mono div_mult_self_is_m)
  with False have q: "N div D = K" by simp
  have "N = (N div D) * D + N mod D" by simp
  with q assms(2) have "N mod D = 0" by (metis add_le_same_cancel1 le_zero_eq)
  with q assms(1) show ?thesis by (simp add: round_half_even_def Let_def)
qed

lemma binade_shift_lower:
  assumes "0 < N" "0 < D" "N \<le> 2 ^ k * D"
  shows "52 - int k \<le> binade_shift N D"
proof -
  from bit_length_bounds[OF assms(1)] have lo: "2 ^ (bit_length N - 1) \<le> N" by simp
  from bit_length_bounds[OF assms(2)] have hi: "D < 2 ^ bit_length D" by simp
  from assms(1) have blN: "0 < bit_length N" by (simp add: bit_length.simps)
  have "2 ^ (bit_length N - 1) \<le> 2 ^ k * D" using lo assms(3) by linarith
  also have "\<dots> < 2 ^ k * 2 ^ bit_length D" using hi by simp
  finally have "(2::nat) ^ (bit_length N - 1) < 2 ^ (k + bit_length D)" by (simp add: power_add)
  then have "bit_length N - 1 < k + bit_length D" by (simp add: power_strict_increasing_iff)
  with blN have d: "int (bit_length N) - int (bit_length D) \<le> int k" by linarith
  define t where "t = 52 - (int (bit_length N) - int (bit_length D))"
  from d have t: "52 - int k \<le> t" by (simp add: t_def)
  have k: "52 - int k \<le> 1074" by simp
  have "binade_shift N D = min 1074 t \<or> binade_shift N D = min 1074 (t + 1)"
    by (auto simp: binade_shift_def Let_def t_def split: prod.splits)
  then show ?thesis
  proof
    assume "binade_shift N D = min 1074 t"
    with t k show ?thesis by (simp add: min_def)
  next
    assume "binade_shift N D = min 1074 (t + 1)"
    moreover from t have "52 - int k \<le> t + 1" by linarith
    ultimately show ?thesis using k by (simp add: min_def)
  qed
qed

lemma scaled_nonneg: "scaled N D (int s) = (N * 2 ^ s, D)"
  by (simp add: scaled_def)

lemma scaled_neg: "scaled N D (- int s) = (N, D * 2 ^ s)"
  by (cases "s = 0") (simp_all add: scaled_def)


lemma finite_val_neg: "finite_val m (- int s) = of_nat m / 2 ^ s"
  by (simp add: finite_val_def power_int_minus field_simps)

lemma inverse_power_le:
  "a \<le> b \<Longrightarrow> (1 / 2 ^ b :: rat) \<le> 1 / 2 ^ a"
  by (simp add: frac_le power_increasing)

lemma round_float_small:
  assumes "0 < N" "0 < D" "N \<le> K * D" "K \<le> 2 ^ k" "k \<le> 52"
  shows "\<exists>m s. round_float N D = Finite m (- int s) \<and> 52 \<le> s + k \<and> m \<le> K * 2 ^ s
           \<and> \<bar>of_nat m / 2 ^ s - (of_nat N / of_nat D :: rat)\<bar> \<le> 1 / 2 ^ (s + 1)"
proof -
  from assms(3,4) have "N \<le> 2 ^ k * D"
    by (meson le_trans mult_le_mono1)
  from binade_shift_lower[OF assms(1,2) this] assms(5)
  have sh: "52 - int k \<le> binade_shift N D" and nn: "0 \<le> binade_shift N D" by simp_all
  define s where "s = nat (binade_shift N D)"
  from nn have bs: "binade_shift N D = int s" by (simp add: s_def)
  define m where "m = round_half_even (N * 2 ^ s) D"
  have rf: "round_float N D = Finite m (- int s)"
    using assms(1) by (simp add: round_float_def bs scaled_nonneg m_def Let_def)
  from sh bs have s52: "52 \<le> s + k" by linarith
  from assms(3) have "N * 2 ^ s \<le> (K * 2 ^ s) * D" by (simp add: mult.assoc mult.left_commute mult.commute)
  from round_half_even_le[OF assms(2) this] have mle: "m \<le> K * 2 ^ s" by (simp add: m_def)
  from round_half_even_near[OF assms(2), of "N * 2 ^ s"]
  have "\<bar>of_nat m - (of_nat N * 2 ^ s / of_nat D :: rat)\<bar> \<le> 1 / 2" by (simp add: m_def)
  moreover have "of_nat m - (of_nat N * 2 ^ s / of_nat D :: rat)
      = 2 ^ s * (of_nat m / 2 ^ s - of_nat N / of_nat D)"
    by (simp add: field_simps)
  ultimately have "2 ^ s * \<bar>of_nat m / 2 ^ s - (of_nat N / of_nat D :: rat)\<bar> \<le> 1 / 2"
    by (simp add: abs_mult)
  then have "\<bar>of_nat m / 2 ^ s - (of_nat N / of_nat D :: rat)\<bar> \<le> 1 / 2 ^ (s + 1)"
    by (simp add: field_simps)
  with rf s52 mle show ?thesis by blast
qed


lemma float_100: "float_of_nat 100 = Finite 7036874417766400 (- 46)"
  by (simp add: float_of_nat_def round_float_def binade_shift_def scaled_def
        round_half_even_def bit_length.simps Let_def)

lemma truediv_zero: "0 < n \<Longrightarrow> truediv 0 n = Inr (Finite 0 0)"
  by (simp add: truediv_def round_float_def)

lemma fmul_zero_100: "fmul (Finite 0 e) (float_of_nat 100) = Finite 0 0"
  by (simp add: float_100 round_float_def scaled_def)

lemma truediv_le:
  assumes "0 < c" "c \<le> n"
  shows "\<exists>m s. truediv c n = Inr (Finite m (- int s)) \<and> m \<le> 2 ^ s
           \<and> \<bar>of_nat m / 2 ^ s - (of_nat c / of_nat n :: rat)\<bar> \<le> 1 / 2 ^ 53"
proof -
  from assms have n: "0 < n" by simp
  from assms have "c \<le> 1 * n" by simp
  from round_float_small[OF assms(1) n this, of 0]
  obtain m s where rf: "round_float c n = Finite m (- int s)" and s: "52 \<le> s" and m: "m \<le> 2 ^ s"
    and e: "\<bar>of_nat m / 2 ^ s - (of_nat c / of_nat n :: rat)\<bar> \<le> 1 / 2 ^ (s + 1)"
    by auto
  from s have "(1 / 2 ^ (s + 1) :: rat) \<le> 1 / 2 ^ 53" by (intro inverse_power_le) simp
  with e have "\<bar>of_nat m / 2 ^ s - (of_nat c / of_nat n :: rat)\<bar> \<le> 1 / 2 ^ 53" by linarith
  moreover from rf n have "truediv c n = Inr (Finite m (- int s))" by (simp add: truediv_def)
  ultimately show ?thesis using m by blast
qed

lemma fmul_100:
  assumes "0 < m1" "m1 \<le> 2 ^ s1"
  shows "\<exists>m s. fmul (Finite m1 (- int s1)) (float_of_nat 100) = Finite m (- int s)
           \<and> m \<le> 100 * 2 ^ s
           \<and> \<bar>of_nat m / 2 ^ s - (of_nat m1 / 2 ^ s1 * 100 :: rat)\<bar> \<le> 1 / 2 ^ 46"
proof -
  define P :: nat where "P = 2 ^ 46"
  have P0: "0 < P" by (simp add: P_def)
  have M: "(7036874417766400::nat) = 100 * P" by (simp add: P_def)
  define N where "N = m1 * (100 * P)"
  define D :: nat where "D = 2 ^ s1 * P"
  have e: "- int s1 + - 46 = - int (s1 + 46)" by simp
  have "fmul (Finite m1 (- int s1)) (float_of_nat 100)
      = round_float (m1 * 7036874417766400) (2 ^ (s1 + 46))"
    by (simp only: float_100 fmul.simps e scaled_neg prod.case mult_1)
  also have "\<dots> = round_float N D"
    by (simp only: M N_def D_def power_add P_def)
  finally have fm: "fmul (Finite m1 (- int s1)) (float_of_nat 100) = round_float N D" .
  from assms(1) P0 have N0: "0 < N" by (simp add: N_def)
  from P0 have D0: "0 < D" by (simp add: D_def)
  from assms(2) have "m1 * (100 * P) \<le> 2 ^ s1 * (100 * P)" by (rule mult_le_mono1)
  also have "\<dots> = 100 * (2 ^ s1 * P)" by (simp only: ac_simps)
  finally have ND: "N \<le> 100 * D" by (simp only: N_def D_def)
  have K: "(100::nat) \<le> 2 ^ 7" by simp
  from round_float_small[OF N0 D0 ND K]
  obtain m s where rf: "round_float N D = Finite m (- int s)" and s: "52 \<le> s + 7"
    and m: "m \<le> 100 * 2 ^ s"
    and er: "\<bar>of_nat m / 2 ^ s - (of_nat N / of_nat D :: rat)\<bar> \<le> 1 / 2 ^ (s + 1)"
    by auto
  from s have "(1 / 2 ^ (s + 1) :: rat) \<le> 1 / 2 ^ 46" by (intro inverse_power_le) simp
  with er have "\<bar>of_nat m / 2 ^ s - (of_nat N / of_nat D :: rat)\<bar> \<le> 1 / 2 ^ 46" by linarith
  moreover have "(of_nat N / of_nat D :: rat) = of_nat m1 / 2 ^ s1 * 100"
    using P0 by (simp add: N_def D_def)
  ultimately have "\<bar>of_nat m / 2 ^ s - (of_nat m1 / 2 ^ s1 * 100 :: rat)\<bar> \<le> 1 / 2 ^ 46" by simp
  with fm rf m show ?thesis by auto
qed

lemma share_float:
  assumes "c \<le> n" "0 < n"
  shows "\<exists>q m s. truediv c n = Inr q \<and> fmul q (float_of_nat 100) = Finite m (- int s)
           \<and> m \<le> 100 * 2 ^ s
           \<and> \<bar>of_nat m / 2 ^ s - (of_nat c / of_nat n * 100 :: rat)\<bar> \<le> 1 / 2 ^ 45"
proof (cases "c = 0")
  case True
  with assms(2) have "truediv c n = Inr (Finite 0 0)" by (simp add: truediv_zero)
  moreover have "fmul (Finite 0 0) (float_of_nat 100) = Finite 0 (- int 0)"
    by (simp add: fmul_zero_100)
  moreover have "(0::nat) \<le> 100 * 2 ^ 0" by simp
  moreover from True have "\<bar>of_nat 0 / 2 ^ 0 - (of_nat c / of_nat n * 100 :: rat)\<bar> \<le> 1 / 2 ^ 45"
    by simp
  ultimately show ?thesis by blast
next
  case False
  then have c: "0 < c" by simp
  from truediv_le[OF c assms(1)]
  obtain m1 s1 where td: "truediv c n = Inr (Finite m1 (- int s1))" and m1: "m1 \<le> 2 ^ s1"
    and e1: "\<bar>of_nat m1 / 2 ^ s1 - (of_nat c / of_nat n :: rat)\<bar> \<le> 1 / 2 ^ 53"
    by blast
  have "of_nat m1 / 2 ^ s1 * 100 - (of_nat c / of_nat n * 100 :: rat)
      = 100 * (of_nat m1 / 2 ^ s1 - of_nat c / of_nat n)"
    by (simp only: algebra_simps)
  then have "\<bar>of_nat m1 / 2 ^ s1 * 100 - (of_nat c / of_nat n * 100 :: rat)\<bar>
      = 100 * \<bar>of_nat m1 / 2 ^ s1 - of_nat c / of_nat n\<bar>"
    by (simp only: abs_mult abs_numeral)
  also from e1 have "\<dots> \<le> 100 * (1 / 2 ^ 53)" by (intro mult_left_mono) simp_all
  finally have e1': "\<bar>of_nat m1 / 2 ^ s1 * 100 - (of_nat c / of_nat n * 100 :: rat)\<bar> \<le> 100 / 2 ^ 53"
    by simp
  show ?thesis
  proof (cases "m1 = 0")
    case True
    have "fmul (Finite m1 (- int s1)) (float_of_nat 100) = Finite 0 (- int 0)"
      using True by (simp add: fmul_zero_100)
    moreover have "(0::nat) \<le> 100 * 2 ^ 0" by simp
    moreover from e1' True have "\<bar>of_nat 0 / 2 ^ 0 - (of_nat c / of_nat n * 100 :: rat)\<bar> \<le> 1 / 2 ^ 45"
      by simp
    ultimately show ?thesis using td by blast
  next
    case False
    then have "0 < m1" by simp
    from fmul_100[OF this m1]
    obtain m s where fm: "fmul (Finite m1 (- int s1)) (float_of_nat 100) = Finite m (- int s)"
      and m: "m \<le> 100 * 2 ^ s"
      and e2: "\<bar>of_nat m / 2 ^ s - (of_nat m1 / 2 ^ s1 * 100 :: rat)\<bar> \<le> 1 / 2 ^ 46"
      by blast
    have "(1 / 2 ^ 46 + 100 / 2 ^ 53 :: rat) \<le> 1 / 2 ^ 45" by simp
    with e1' e2 have "\<bar>of_nat m / 2 ^ s - (of_nat c / of_nat n * 100 :: rat)\<bar> \<le> 1 / 2 ^ 45"
      by linarith
    with td fm m show ?thesis by blast
  qed
qed

section \<open>Properties of the statistics\<close>


lemma cargo_count_le: "cargo_count data_template cargo \<le> length data_template"
  by (simp add: cargo_count_def)

lemma similar_profiles_card:
  "length (similar_profiles data_template nv uf) =
     card {i. i < length data_template
            \<and> nivel (data_template ! i) = nv \<and> ufOndeMora (data_template ! i) = uf}"
  by (simp add: similar_profiles_def length_filter_conv_card)

lemma similar_profiles_none:
  "(\<forall>r\<in>set data_template. nivel r \<noteq> nv \<or> ufOndeMora r \<noteq> uf) \<Longrightarrow>
   length (similar_profiles data_template nv uf) = 0"
  by (auto simp: similar_profiles_def filter_empty_conv)

lemma cargo_percentage_nonempty:
  assumes "data_template \<noteq> []"
  shows "\<exists>q m s. truediv (cargo_count data_template cargo) (length data_template) = Inr q
           \<and> cargo_percentage data_template cargo = Inr (fmul q (float_of_nat 100))
           \<and> fmul q (float_of_nat 100) = Finite m (- int s)
           \<and> m \<le> 100 * 2 ^ s
           \<and> \<bar>of_nat m / 2 ^ s
                - (of_nat (cargo_count data_template cargo) / of_nat (length data_template) * 100
                    :: rat)\<bar> \<le> 1 / 2 ^ 45"
proof -
  from assms have n: "0 < length data_template" by simp
  from share_float[OF cargo_count_le n, of cargo]
  obtain q m s where q: "truediv (cargo_count data_template cargo) (length data_template) = Inr q"
    and f: "fmul q (float_of_nat 100) = Finite m (- int s)"
    and m: "m \<le> 100 * 2 ^ s"
    and e: "\<bar>of_nat m / 2 ^ s
                - (of_nat (cargo_count data_template cargo) / of_nat (length data_template) * 100
                    :: rat)\<bar> \<le> 1 / 2 ^ 45"
    by blast
  from q have "cargo_percentage data_template cargo = Inr (fmul q (float_of_nat 100))"
    by (simp add: cargo_percentage_def)
  with q f m e show ?thesis by blast
qed

lemma cargo_percentage_empty: "cargo_percentage [] cargo = Inl ZeroDivisionError"
  by (simp add: cargo_percentage_def truediv_def)

lemma finite_val_range:
  assumes "m \<le> 100 * 2 ^ s"
  shows "0 \<le> finite_val m (- int s)" "finite_val m (- int s) \<le> 100"
proof -
  show "0 \<le> finite_val m (- int s)" by (simp add: finite_val_neg)
  from assms have "(of_nat m :: rat) \<le> of_nat (100 * 2 ^ s)" by (simp only: of_nat_le_iff)
  then have "(of_nat m :: rat) \<le> 100 * 2 ^ s" by simp
  then show "finite_val m (- int s) \<le> 100" by (simp add: finite_val_neg divide_le_eq)
qed

section \<open>Properties of the submission handler\<close>


lemma on_submit_never_raises: "snd (on_submit model data_template p show_chart) = Inr ()"
  by (auto simp: on_submit_def submitted_body_def try_except_def Let_def split: sum.splits)

lemma on_submit_prediction_failure:
  "predict_bracket model p = Inl e \<Longrightarrow>
   on_submit model data_template p show_chart =
     ([StError (PredictionError e), LogError (PredictionError e)], Inr ())"
  by (simp add: on_submit_def submitted_body_def try_except_def)

lemma predictor_raises:
  "model_input model (user_data p) = Inr X \<Longrightarrow> predict model X = Inl e \<Longrightarrow>
   predict_bracket model p = Inl e"
  by (simp add: predict_bracket_def salario_pred_def)

lemma malformed_input:
  "model_input model (user_data p) = Inl e \<Longrightarrow> predict_bracket model p = Inl e"
  by (simp add: predict_bracket_def salario_pred_def)

section \<open>Properties of the model loader\<close>

lemma fold_max_Max: "fold max xs (x::int) = Max (insert x (set xs))"
  using Max.set_eq_fold[of x xs] by simp

lemma max_of_Max: "ns \<noteq> [] \<Longrightarrow> max_of ns = Inr (Max (set ns))"
  by (cases ns) (simp_all add: max_of_def fold_max_Max)

lemma load_model_not_found:
  "search_registered_models reg = Inr found \<Longrightarrow>
   filter (\<lambda>i. name i = ''salario-model'') found = [] \<Longrightarrow>
   load_model reg = ([StError ModelNotFound], Inl StopException)"
  by (simp add: load_model_def load_model_body_def try_except_def)

lemma load_model_success:
  "search_registered_models reg = Inr found \<Longrightarrow>
   filter (\<lambda>i. name i = ''salario-model'') found = m # rest \<Longrightarrow>
   ints_of_versions (latest_versions m) = Inr ns \<Longrightarrow> ns \<noteq> [] \<Longrightarrow>
   sklearn_load_model reg (Max (set ns)) = Inr model \<Longrightarrow>
   load_model reg = ([LogInfo (ModelLoaded (Max (set ns)))], Inr (model, Max (set ns)))"
  by (simp add: load_model_def load_model_body_def try_except_def max_of_Max)

lemma load_model_outcome:
  "snd (load_model reg) = Inl StopException \<and> (\<exists>m. StError m \<in> set (fst (load_model reg)))
   \<or> (\<exists>model v. load_model reg = ([LogInfo (ModelLoaded v)], Inr (model, v)))"
  by (auto simp: load_model_def load_model_body_def try_except_def
        split: sum.splits list.splits)

lemma load_model_returns_only_if:
  "load_model reg = (evs, Inr (model, v)) \<Longrightarrow>
   \<exists>found m rest ns. search_registered_models reg = Inr found
     \<and> filter (\<lambda>i. name i = ''salario-model'') found = m # rest
     \<and> ints_of_versions (latest_versions m) = Inr ns \<and> ns \<noteq> []
     \<and> v = Max (set ns) \<and> sklearn_load_model reg v = Inr model"
  by (auto simp: load_model_def load_model_body_def try_except_def max_of_def fold_max_Max
        split: sum.splits list.splits)

section \<open>Properties of the form\<close>

lemma set_unique_from: "set (unique_from seen xs) = set xs - set seen"
  by (induction seen xs rule: unique_from.induct) auto

lemma distinct_unique_from: "distinct (unique_from seen xs)"
  by (induction seen xs rule: unique_from.induct) (auto simp: set_unique_from)

lemma set_unique: "set (unique xs) = set xs"
  by (simp add: unique_def set_unique_from)

lemma set_sort_values: "set (sort_values xs) = set xs"
  by (simp add: sort_values_def)

lemma series_min_Min: "xs \<noteq> [] \<Longrightarrow> series_min xs = Some (Min (set xs))"
proof (cases xs)
  case Nil
  assume "xs \<noteq> []" with Nil show ?thesis by simp
next
  case (Cons x rest)
  from Min.set_eq_fold[of x rest] have "fold min rest x = Min (insert x (set rest))" by simp
  with Cons show ?thesis by (simp add: series_min_def)
qed

lemma idade_input_nonempty:
  "data_template \<noteq> [] \<Longrightarrow>
   idade_input data_template = number_input (Min (set (map idade data_template))) 100 30"
  by (simp add: idade_input_def series_min_Min)

lemma number_input_accepted:
  "lo \<le> 30 \<Longrightarrow>
   number_input lo 100 30 = Inr \<lparr>min_value = lo, max_value = 100, default_value = 30\<rparr>"
  by (simp add: number_input_def)

lemma number_input_refused: "30 < lo \<Longrightarrow> number_input lo 100 30 = Inl StreamlitAPIException"
  by (simp add: number_input_def)

section \<open>The example inputs, evaluated\<close>

lemma cargo_count_hundred_rows: "cargo_count hundred_rows ''Data Engineer'' = 10"
  by (simp add: cargo_count_def hundred_rows_def engineer_def scientist_def)

lemma length_hundred_rows: "length hundred_rows = 100"
  by (simp add: hundred_rows_def)

lemma share_10_of_100:
  "truediv 10 100 = Inr (Finite 7205759403792794 (- 56))"
  "fmul (Finite 7205759403792794 (- 56)) (float_of_nat 100) = Finite 5629499534213120 (- 49)"
  "finite_val 5629499534213120 (- 49) = 10"
  "format_1f (Finite 5629499534213120 (- 49)) = ''10.0''"
  by (simp_all add: truediv_def float_100 round_float_def binade_shift_def scaled_def
        round_half_even_def bit_length.simps finite_val_def power_int_minus Let_def)


lemma cargo_percentage_hundred_rows:
  "cargo_percentage hundred_rows ''Data Engineer'' = Inr (Finite 5629499534213120 (- 49))"
  by (simp only: cargo_percentage_def cargo_count_hundred_rows length_hundred_rows
        share_10_of_100 sum.case)


lemma similar_small:
  "length (similar_profiles small_table (nivel engineer) (ufOndeMora engineer)) = 2"
  by (simp add: similar_profiles_def small_table_def engineer_def scientist_def)

lemma similar_relocated:
  "\<forall>r\<in>set small_table. nivel r \<noteq> nivel relocated \<or> ufOndeMora r \<noteq> ufOndeMora relocated"
  by (simp add: small_table_def relocated_def engineer_def scientist_def)

lemma form_returns_small: "form_returns small_table engineer"
  by (simp add: form_returns_def idade_input_def series_min_def number_input_def
     number_input_returns_def
     selectbox_returns_def genero_options_def pcd_options_def ufs_def cargos_def niveis_def
     temp_dados_def temp_ti_def unique_def sort_values_def small_table_def engineer_def
     scientist_def)

lemma form_returns_relocated: "form_returns small_table relocated"
  by (simp add: form_returns_def idade_input_def series_min_def number_input_def
     number_input_returns_def
     selectbox_returns_def genero_options_def pcd_options_def ufs_def cargos_def niveis_def
     temp_dados_def temp_ti_def unique_def sort_values_def small_table_def engineer_def
     scientist_def relocated_def)

section \<open>The displayed bracket\<close>

text \<open>
  Claim C1.  Whenever the predictor returns a string label, the bracket that the
  pipeline computes and shows is the part of the label after the last occurrence of
  the separator \<open>''- ''\<close>; when the separator does not occur in the label, it is the
  whole label.
\<close>

theorem bracket_after_last_separator:
  assumes "salario_pred model (user_data p) = Inr (PyStr label)"
  shows "(label = pre @ ''- '' @ post \<and> \<not> sublist ''- '' post \<longrightarrow>
            predict_bracket model p = Inr post
            \<and> hd (fst (on_submit model data_template p show_chart)) = StSuccess post)
       \<and> (\<not> sublist ''- '' label \<longrightarrow>
            predict_bracket model p = Inr label
            \<and> hd (fst (on_submit model data_template p show_chart)) = StSuccess label)"
proof -
  have pb: "predict_bracket model p = Inr (last (split_from separator [] label))"
    using assms by (simp add: predict_bracket_def salario_limpo_PyStr)
  have shown: "hd (fst (on_submit model data_template p show_chart)) = StSuccess b"
    if "predict_bracket model p = Inr b" for b
    using on_submit_shows_bracket[OF that, of data_template show_chart] by auto
  have present: "predict_bracket model p = Inr post"
    if "label = pre @ ''- '' @ post" "\<not> sublist ''- '' post"
    using that pb last_split_separator[of label pre post "[]"] by (simp add: separator_def)
  have absent: "predict_bracket model p = Inr label" if "\<not> sublist ''- '' label"
    using that pb split_from_absent[of separator label "[]"] by (simp add: separator_def)
  from present absent shown show ?thesis by blast
qed

theorem bracket_after_last_separator_witness:
  "salario_pred (constant_model ''Faixa - R$ 6.000-12.000'') (user_data engineer)
     = Inr (PyStr ''Faixa - R$ 6.000-12.000'')
   \<and> ''Faixa - R$ 6.000-12.000'' = ''Faixa '' @ ''- '' @ ''R$ 6.000-12.000''
   \<and> \<not> sublist ''- '' ''R$ 6.000-12.000''
   \<and> predict_bracket (constant_model ''Faixa - R$ 6.000-12.000'') engineer
       = Inr ''R$ 6.000-12.000''
   \<and> hd (fst (on_submit (constant_model ''Faixa - R$ 6.000-12.000'') small_table engineer False))
       = StSuccess ''R$ 6.000-12.000''
   \<and> salario_pred (constant_model ''Pleno'') (user_data engineer) = Inr (PyStr ''Pleno'')
   \<and> \<not> sublist ''- '' ''Pleno''
   \<and> predict_bracket (constant_model ''Pleno'') engineer = Inr ''Pleno''
   \<and> hd (fst (on_submit (constant_model ''Pleno'') small_table engineer False))
       = StSuccess ''Pleno''"
proof -
  have cargo_count_hundred_rows: "salario_pred (constant_model ''Faixa - R$ 6.000-12.000'') (user_data engineer)
     = Inr (PyStr ''Faixa - R$ 6.000-12.000'')"
    by (simp add: salario_pred_def model_input_def constant_model_def all_columns_def
        user_data_def getitem_first_def)
  have length_hundred_rows: "''Faixa - R$ 6.000-12.000'' = ''Faixa '' @ ''- '' @ ''R$ 6.000-12.000''"
    by simp
  have h3: "\<not> sublist ''- '' ''R$ 6.000-12.000''"
    by (simp add: sublist_code)
  have h4: "salario_pred (constant_model ''Pleno'') (user_data engineer) = Inr (PyStr ''Pleno'')"
    by (simp add: salario_pred_def model_input_def constant_model_def all_columns_def
        user_data_def getitem_first_def)
  have h5: "\<not> sublist ''- '' ''Pleno''"
    by (simp add: sublist_code)
  from bracket_after_last_separator[OF cargo_count_hundred_rows, of "''Faixa ''" "''R$ 6.000-12.000''" "small_table" False]
    bracket_after_last_separator[OF h4, of "[]" "[]" "small_table" False]
    cargo_count_hundred_rows length_hundred_rows h3 h4 h5
  show ?thesis by blast
qed

section \<open>The share of the job title: its range, and the empty table\<close>

text \<open>
  Claim C2, as amended.  For every job title and every reference table with at least
  one line, the share of the job title is a finite float between 0 and 100.  The
  division of line 265 has no guard: on the table with no line it raises
  \<^verbatim>\<open>ZeroDivisionError\<close>, and no share of 0 is defined there.
\<close>

theorem job_share_range:
  "(data_template \<noteq> [] \<longrightarrow>
      (\<exists>m e. cargo_percentage data_template cargo = Inr (Finite m e)
         \<and> 0 \<le> finite_val m e \<and> finite_val m e \<le> 100))
   \<and> cargo_percentage [] cargo = Inl ZeroDivisionError"
proof (intro conjI impI)
  assume "data_template \<noteq> []"
  from cargo_percentage_nonempty[OF this, of cargo]
  obtain m s where "cargo_percentage data_template cargo = Inr (Finite m (- int s))"
    and "m \<le> 100 * 2 ^ s"
    by auto
  with finite_val_range[of m s]
  show "\<exists>m e. cargo_percentage data_template cargo = Inr (Finite m e)
         \<and> 0 \<le> finite_val m e \<and> finite_val m e \<le> 100"
    by blast
next
  show "cargo_percentage [] cargo = Inl ZeroDivisionError" by (rule cargo_percentage_empty)
qed

theorem job_share_range_witness:
  "hundred_rows \<noteq> []
   \<and> cargo_percentage hundred_rows ''Data Engineer'' = Inr (Finite 5629499534213120 (- 49))
   \<and> finite_val 5629499534213120 (- 49) = 10
   \<and> 0 \<le> finite_val 5629499534213120 (- 49)
   \<and> finite_val 5629499534213120 (- 49) \<le> 100"
proof -
  have ne: "hundred_rows \<noteq> []" by (simp add: hundred_rows_def)
  from job_share_range[of hundred_rows "''Data Engineer''"] ne
  obtain m e where "cargo_percentage hundred_rows ''Data Engineer'' = Inr (Finite m e)"
    and r: "0 \<le> finite_val m e" "finite_val m e \<le> 100"
    by blast
  with cargo_percentage_hundred_rows have "m = 5629499534213120" "e = - 49" by simp_all
  with r have "0 \<le> finite_val 5629499534213120 (- 49)"
    "finite_val 5629499534213120 (- 49) \<le> 100"
    by simp_all
  with ne cargo_percentage_hundred_rows share_10_of_100(3) show ?thesis by blast
qed

text \<open>
  The claim as first stated asks for the share 0 on the table with no line.  The
  division raises there instead of giving 0; and the script does not get that far on
  such a table, since the age input of line 134 has already raised.
\<close>

theorem job_share_empty_table_counterexample:
  "cargo_percentage [] ''Data Engineer'' = Inl ZeroDivisionError
   \<and> cargo_percentage [] ''Data Engineer'' \<noteq> Inr (Finite 0 0)
   \<and> idade_input [] = Inl ValueError"
  by (simp add: cargo_percentage_empty idade_input_def series_min_def)

section \<open>The bracket never holds the separator\<close>

text \<open>
  Claim C3, as amended.  A bracket that the pipeline returns never contains the
  separator \<open>''- ''\<close>.  When the predictor returns a string label, a bracket is
  returned, and it is non-empty exactly when the label is non-empty and does not end
  with the separator.
\<close>

theorem bracket_without_separator:
  "(predict_bracket model p = Inr bracket \<longrightarrow> \<not> sublist ''- '' bracket)
   \<and> (salario_pred model (user_data p) = Inr (PyStr label) \<longrightarrow>
        (\<exists>bracket. predict_bracket model p = Inr bracket
           \<and> \<not> sublist ''- '' bracket
           \<and> (bracket \<noteq> [] \<longleftrightarrow> label \<noteq> [] \<and> \<not> suffix ''- '' label)))"
proof (intro conjI impI)
  assume r: "predict_bracket model p = Inr bracket"
  then obtain l where "salario_pred model (user_data p) = Inr (PyStr l)"
    using predict_bracket_Inr_label by blast
  with r have "salario_limpo (PyStr l) = Inr bracket" by (simp add: predict_bracket_def)
  from salario_limpo_no_separator[OF this] show "\<not> sublist ''- '' bracket"
    by (simp add: separator_def)
next
  assume l: "salario_pred model (user_data p) = Inr (PyStr label)"
  define b where "b = last (split_from separator [] label)"
  have sl: "salario_limpo (PyStr label) = Inr b" by (simp add: salario_limpo_PyStr b_def)
  with l have "predict_bracket model p = Inr b" by (simp add: predict_bracket_def)
  moreover from salario_limpo_no_separator[OF sl] have "\<not> sublist ''- '' b"
    by (simp add: separator_def)
  moreover from salario_limpo_empty_iff[OF sl]
  have "b \<noteq> [] \<longleftrightarrow> label \<noteq> [] \<and> \<not> suffix ''- '' label"
    by (simp add: separator_def)
  ultimately show "\<exists>bracket. predict_bracket model p = Inr bracket
           \<and> \<not> sublist ''- '' bracket
           \<and> (bracket \<noteq> [] \<longleftrightarrow> label \<noteq> [] \<and> \<not> suffix ''- '' label)"
    by blast
qed

theorem bracket_without_separator_witness:
  "predict_bracket (constant_model ''Faixa - R$ 6.000-12.000'') engineer
     = Inr ''R$ 6.000-12.000''
   \<and> \<not> sublist ''- '' ''R$ 6.000-12.000''
   \<and> salario_pred (constant_model ''Faixa - R$ 6.000-12.000'') (user_data engineer)
       = Inr (PyStr ''Faixa - R$ 6.000-12.000'')
   \<and> ''R$ 6.000-12.000'' \<noteq> []
   \<and> ''Faixa - R$ 6.000-12.000'' \<noteq> []
   \<and> \<not> suffix ''- '' ''Faixa - R$ 6.000-12.000''"
proof -
  have pb: "predict_bracket (constant_model ''Faixa - R$ 6.000-12.000'') engineer
     = Inr ''R$ 6.000-12.000''"
    by (rule predict_bracket_constant_faixa)
  have sp: "salario_pred (constant_model ''Faixa - R$ 6.000-12.000'') (user_data engineer)
       = Inr (PyStr ''Faixa - R$ 6.000-12.000'')"
    by (rule salario_pred_constant_model)
  note t = bracket_without_separator[of "constant_model ''Faixa - R$ 6.000-12.000''" engineer
      "''R$ 6.000-12.000''" "''Faixa - R$ 6.000-12.000''"]
  from t pb have a: "\<not> sublist ''- '' ''R$ 6.000-12.000''" by blast
  from t sp pb have "''R$ 6.000-12.000'' \<noteq> [] \<longleftrightarrow>
      ''Faixa - R$ 6.000-12.000'' \<noteq> [] \<and> \<not> suffix ''- '' ''Faixa - R$ 6.000-12.000''"
    by auto
  then have b: "''Faixa - R$ 6.000-12.000'' \<noteq> [] \<and> \<not> suffix ''- '' ''Faixa - R$ 6.000-12.000''"
    by simp
  have c: "''R$ 6.000-12.000'' \<noteq> []" by simp
  from pb a sp b c show ?thesis by blast
qed

text \<open>
  The claim as first stated asks for a non-empty bracket for every valid profile.  A
  predictor whose label ends with the separator gives the empty bracket, for a profile
  whose every field comes from the table.
\<close>

theorem empty_bracket_counterexample:
  "form_returns small_table engineer
   \<and> salario_pred (constant_model ''Faixa - '') (user_data engineer) = Inr (PyStr ''Faixa - '')
   \<and> predict_bracket (constant_model ''Faixa - '') engineer = Inr []"
  by (simp add: form_returns_small predict_bracket_def salario_pred_constant_model
        salario_limpo_def split_def separator_def getitem_last_def)

section \<open>The columns passed to the predictor\<close>

text \<open>
  Claim C4.  With the names that the predictor declares, the pipeline builds the input
  of \<^verbatim>\<open>predict\<close> from the one-line frame of the form: when every declared name is
  a column of the frame, the input has exactly the declared names, in the declared
  order, each with its value from the frame, and the raw prediction is \<^verbatim>\<open>predict\<close>
  applied to that input.  When a declared name is not a column, the selection raises
  \<^verbatim>\<open>KeyError\<close> and the predictor is not called.
\<close>

theorem predictor_receives_declared_columns:
  assumes "feature_names_in model = Some names"
  shows "(set names \<subseteq> set (map fst (user_data p)) \<longrightarrow>
           (\<exists>X. model_input model (user_data p) = Inr X
              \<and> map fst X = names
              \<and> set X \<subseteq> set (user_data p)
              \<and> salario_pred model (user_data p) =
                  (case predict model X of Inl e \<Rightarrow> Inl e | Inr labels \<Rightarrow> getitem_first labels)))
       \<and> (\<not> set names \<subseteq> set (map fst (user_data p)) \<longrightarrow>
            salario_pred model (user_data p) = Inl KeyError)"
proof (intro conjI impI)
  assume "set names \<subseteq> set (map fst (user_data p))"
  then obtain X where X: "getitem_columns (user_data p) names = Inr X"
    using getitem_columns_present[of names "user_data p"] by auto
  with assms have mi: "model_input model (user_data p) = Inr X" by (simp add: model_input_def)
  then have "salario_pred model (user_data p) =
                  (case predict model X of Inl e \<Rightarrow> Inl e | Inr labels \<Rightarrow> getitem_first labels)"
    by (simp add: salario_pred_def)
  with mi getitem_columns_Inr[OF X]
  show "\<exists>X. model_input model (user_data p) = Inr X
              \<and> map fst X = names
              \<and> set X \<subseteq> set (user_data p)
              \<and> salario_pred model (user_data p) =
                  (case predict model X of Inl e \<Rightarrow> Inl e | Inr labels \<Rightarrow> getitem_first labels)"
    by blast
next
  assume "\<not> set names \<subseteq> set (map fst (user_data p))"
  then have "getitem_columns (user_data p) names = Inl KeyError"
    using getitem_columns_missing[of names "user_data p"] by simp
  with assms show "salario_pred model (user_data p) = Inl KeyError"
    by (simp add: salario_pred_def model_input_def)
qed

theorem predictor_receives_declared_columns_witness:
  "feature_names_in two_column_model = Some [''nivel'', ''idade'']
   \<and> set [''nivel'', ''idade''] \<subseteq> set (map fst (user_data engineer))
   \<and> model_input two_column_model (user_data engineer)
       = Inr [(''nivel'', StrCell ''Pleno''), (''idade'', IntCell 31)]
   \<and> salario_pred two_column_model (user_data engineer) = Inr (PyStr ''Faixa - R$ 6.000-12.000'')
   \<and> feature_names_in stale_model = Some [''idade'', ''salario'']
   \<and> \<not> set [''idade'', ''salario''] \<subseteq> set (map fst (user_data engineer))
   \<and> salario_pred stale_model (user_data engineer) = Inl KeyError"
proof -
  have f1: "feature_names_in two_column_model = Some [''nivel'', ''idade'']"
    by (simp add: two_column_model_def)
  have s1: "set [''nivel'', ''idade''] \<subseteq> set (map fst (user_data engineer))"
    by (simp add: user_data_def)
  have m1: "model_input two_column_model (user_data engineer)
       = Inr [(''nivel'', StrCell ''Pleno''), (''idade'', IntCell 31)]"
    by (simp add: model_input_def two_column_model_def user_data_def engineer_def)
  have p1: "predict two_column_model [(''nivel'', StrCell ''Pleno''), (''idade'', IntCell 31)]
       = Inr [PyStr ''Faixa - R$ 6.000-12.000'']"
    by (simp add: two_column_model_def)
  have f2: "feature_names_in stale_model = Some [''idade'', ''salario'']"
    by (simp add: stale_model_def)
  have s2: "\<not> set [''idade'', ''salario''] \<subseteq> set (map fst (user_data engineer))"
    by (simp add: user_data_def)
  from predictor_receives_declared_columns[OF f1, of engineer] s1 m1 p1
  have a: "salario_pred two_column_model (user_data engineer) = Inr (PyStr ''Faixa - R$ 6.000-12.000'')"
    by (auto simp: getitem_first_def)
  from predictor_receives_declared_columns[OF f2, of engineer] s2
  have b: "salario_pred stale_model (user_data engineer) = Inl KeyError"
    by blast
  from f1 s1 m1 a f2 s2 b show ?thesis by blast
qed

section \<open>The count of similar profiles\<close>

text \<open>
  Claim C5.  The count of similar profiles is the number of lines of the table whose
  level equals the profile's level and whose state equals the profile's state; it is 0
  when no line matches; and whenever a bracket was predicted the count is shown as the
  second item of the page, whatever the table.
\<close>

theorem similar_count_matching_rows:
  "length (similar_profiles data_template (nivel p) (ufOndeMora p)) =
     card {i. i < length data_template
            \<and> nivel (data_template ! i) = nivel p
            \<and> ufOndeMora (data_template ! i) = ufOndeMora p}
   \<and> ((\<forall>r\<in>set data_template. nivel r \<noteq> nivel p \<or> ufOndeMora r \<noteq> ufOndeMora p) \<longrightarrow>
        length (similar_profiles data_template (nivel p) (ufOndeMora p)) = 0)
   \<and> (predict_bracket model p = Inr bracket \<longrightarrow>
        fst (on_submit model data_template p show_chart) ! 1 =
          StMetric ''Perfis Similares na Base''
            (Count (length (similar_profiles data_template (nivel p) (ufOndeMora p)))))"
proof (intro conjI impI)
  show "length (similar_profiles data_template (nivel p) (ufOndeMora p)) =
     card {i. i < length data_template
            \<and> nivel (data_template ! i) = nivel p
            \<and> ufOndeMora (data_template ! i) = ufOndeMora p}"
    by (rule similar_profiles_card)
next
  assume "\<forall>r\<in>set data_template. nivel r \<noteq> nivel p \<or> ufOndeMora r \<noteq> ufOndeMora p"
  then show "length (similar_profiles data_template (nivel p) (ufOndeMora p)) = 0"
    by (rule similar_profiles_none)
next
  assume "predict_bracket model p = Inr bracket"
  from on_submit_shows_bracket[OF this, of data_template show_chart]
  show "fst (on_submit model data_template p show_chart) ! 1 =
          StMetric ''Perfis Similares na Base''
            (Count (length (similar_profiles data_template (nivel p) (ufOndeMora p))))"
    by auto
qed

theorem similar_count_matching_rows_witness:
  "card {i. i < length small_table
            \<and> nivel (small_table ! i) = nivel engineer
            \<and> ufOndeMora (small_table ! i) = ufOndeMora engineer} = 2
   \<and> length (similar_profiles small_table (nivel engineer) (ufOndeMora engineer)) = 2
   \<and> form_returns small_table relocated
   \<and> length (similar_profiles small_table (nivel relocated) (ufOndeMora relocated)) = 0
   \<and> predict_bracket (constant_model ''Faixa - R$ 6.000-12.000'') relocated
       = Inr ''R$ 6.000-12.000''
   \<and> fst (on_submit (constant_model ''Faixa - R$ 6.000-12.000'') small_table relocated False) ! 1
       = StMetric ''Perfis Similares na Base'' (Count 0)"
proof -
  have pb: "predict_bracket (constant_model ''Faixa - R$ 6.000-12.000'') relocated
       = Inr ''R$ 6.000-12.000''"
    by (rule predict_bracket_constant_faixa)
  from similar_count_matching_rows[of small_table engineer] similar_small
  have a: "card {i. i < length small_table
            \<and> nivel (small_table ! i) = nivel engineer
            \<and> ufOndeMora (small_table ! i) = ufOndeMora engineer} = 2"
    by simp
  note t = similar_count_matching_rows[of small_table relocated
      "constant_model ''Faixa - R$ 6.000-12.000''" "''R$ 6.000-12.000''" False]
  from t similar_relocated
  have z: "length (similar_profiles small_table (nivel relocated) (ufOndeMora relocated)) = 0"
    by blast
  from t pb
  have "fst (on_submit (constant_model ''Faixa - R$ 6.000-12.000'') small_table relocated False) ! 1
       = StMetric ''Perfis Similares na Base''
           (Count (length (similar_profiles small_table (nivel relocated) (ufOndeMora relocated))))"
    by blast
  then have b: "fst (on_submit (constant_model ''Faixa - R$ 6.000-12.000'') small_table relocated False) ! 1
       = StMetric ''Perfis Similares na Base'' (Count 0)"
    by (simp only: z)
  from a similar_small form_returns_relocated z pb b show ?thesis by blast
qed

section \<open>The share of the job title: its value\<close>



section \<open>Failures of the prediction\<close>

text \<open>
  Claim C7.  The handler of a submission never raises to its caller.  When the
  prediction fails with an exception, the page shows the error, the logger records it,
  and nothing else happens; this covers an input that cannot be built from the declared
  columns and a predictor that raises.
\<close>

theorem prediction_failure_is_caught:
  "snd (on_submit model data_template p show_chart) = Inr ()
   \<and> (predict_bracket model p = Inl e \<longrightarrow>
        on_submit model data_template p show_chart =
          ([StError (PredictionError e), LogError (PredictionError e)], Inr ()))
   \<and> (model_input model (user_data p) = Inl e \<longrightarrow> predict_bracket model p = Inl e)
   \<and> (model_input model (user_data p) = Inr X \<and> predict model X = Inl e \<longrightarrow>
        predict_bracket model p = Inl e)"
  using on_submit_never_raises on_submit_prediction_failure predictor_raises malformed_input
  by blast

theorem prediction_failure_is_caught_witness:
  "predict_bracket raising_model engineer = Inl (OtherException ''predict failed'')
   \<and> on_submit raising_model small_table engineer False =
       ([StError (PredictionError (OtherException ''predict failed'')),
         LogError (PredictionError (OtherException ''predict failed''))], Inr ())
   \<and> model_input stale_model (user_data engineer) = Inl KeyError
   \<and> predict_bracket stale_model engineer = Inl KeyError
   \<and> on_submit stale_model small_table engineer False =
       ([StError (PredictionError KeyError), LogError (PredictionError KeyError)], Inr ())
   \<and> model_input raising_model (user_data engineer) = Inr (user_data engineer)
   \<and> predict raising_model (user_data engineer) = Inl (OtherException ''predict failed'')"
proof -
  have mi: "model_input raising_model (user_data engineer) = Inr (user_data engineer)"
    by (simp add: model_input_def raising_model_def all_columns_def user_data_def)
  have pr: "predict raising_model (user_data engineer) = Inl (OtherException ''predict failed'')"
    by (simp add: raising_model_def)
  have st: "model_input stale_model (user_data engineer) = Inl KeyError"
    by (simp add: model_input_def stale_model_def user_data_def)
  note thm1 = prediction_failure_is_caught[of raising_model small_table engineer False
      "OtherException ''predict failed''" "user_data engineer"]
  note thm2 = prediction_failure_is_caught[of stale_model small_table engineer False
      KeyError "[]"]
  from thm1 mi pr have a: "predict_bracket raising_model engineer = Inl (OtherException ''predict failed'')"
    by blast
  with thm1 have b: "on_submit raising_model small_table engineer False =
       ([StError (PredictionError (OtherException ''predict failed'')),
         LogError (PredictionError (OtherException ''predict failed''))], Inr ())"
    by blast
  from thm2 st have c: "predict_bracket stale_model engineer = Inl KeyError" by blast
  with thm2 have d: "on_submit stale_model small_table engineer False =
       ([StError (PredictionError KeyError), LogError (PredictionError KeyError)], Inr ())"
    by blast
  from a b c d mi pr st show ?thesis by blast
qed

section \<open>Loading the model\<close>

text \<open>
  Claim C8, as amended.  When the search succeeds and no registered model has the
  configured name, the loader shows an error and stops.  When the first model of that
  name has a non-empty list of latest versions that are all numbers, and the registry
  loads the model at the greatest of them, the loader returns that predictor with that
  version.  The loader returns in no other case, and then the version is that maximum;
  in every case where it does not return, an error was shown and the script stopped.
\<close>

theorem load_model_contract:
  "(search_registered_models reg = Inr found
      \<and> filter (\<lambda>i. name i = ''salario-model'') found = [] \<longrightarrow>
        load_model reg = ([StError ModelNotFound], Inl StopException))
   \<and> (search_registered_models reg = Inr found
      \<and> filter (\<lambda>i. name i = ''salario-model'') found = m # rest
      \<and> ints_of_versions (latest_versions m) = Inr ns \<and> ns \<noteq> []
      \<and> sklearn_load_model reg (Max (set ns)) = Inr model \<longrightarrow>
        load_model reg = ([LogInfo (ModelLoaded (Max (set ns)))], Inr (model, Max (set ns))))
   \<and> (load_model reg = (evs, Inr (model', v)) \<longrightarrow>
        (\<exists>found' m' rest' ns'. search_registered_models reg = Inr found'
           \<and> filter (\<lambda>i. name i = ''salario-model'') found' = m' # rest'
           \<and> ints_of_versions (latest_versions m') = Inr ns' \<and> ns' \<noteq> []
           \<and> v = Max (set ns') \<and> sklearn_load_model reg v = Inr model'))
   \<and> ((snd (load_model reg) = Inl StopException
          \<and> (\<exists>msg. StError msg \<in> set (fst (load_model reg))))
        \<or> (\<exists>model'' v''. load_model reg = ([LogInfo (ModelLoaded v'')], Inr (model'', v''))))"
  using load_model_not_found[of reg found]
    load_model_success[of reg found m rest ns model]
    load_model_returns_only_if[of reg evs model' v]
    load_model_outcome[of reg]
  by blast

theorem load_model_contract_witness:
  "search_registered_models registry_without_model = Inr [other_entry]
   \<and> filter (\<lambda>i. name i = ''salario-model'') [other_entry] = []
   \<and> load_model registry_without_model = ([StError ModelNotFound], Inl StopException)
   \<and> search_registered_models good_registry = Inr [other_entry, salario_entry]
   \<and> filter (\<lambda>i. name i = ''salario-model'') [other_entry, salario_entry] = [salario_entry]
   \<and> ints_of_versions (latest_versions salario_entry) = Inr [2, 5, 3]
   \<and> Max (set [2, 5, 3 :: int]) = 5
   \<and> sklearn_load_model good_registry 5 = Inr (constant_model ''Faixa - R$ 6.000-12.000'')
   \<and> load_model good_registry =
       ([LogInfo (ModelLoaded 5)], Inr (constant_model ''Faixa - R$ 6.000-12.000'', 5))"
proof -
  have a1: "search_registered_models registry_without_model = Inr [other_entry]"
    by (simp add: registry_without_model_def)
  have a2: "filter (\<lambda>i. name i = ''salario-model'') [other_entry] = []"
    by (simp add: other_entry_def)
  have b1: "search_registered_models good_registry = Inr [other_entry, salario_entry]"
    by (simp add: good_registry_def)
  have b2: "filter (\<lambda>i. name i = ''salario-model'') [other_entry, salario_entry] = [salario_entry]"
    by (simp add: other_entry_def salario_entry_def)
  have b3: "ints_of_versions (latest_versions salario_entry) = Inr [2, 5, 3]"
    by (simp add: salario_entry_def)
  have b4: "Max (set [2, 5, 3 :: int]) = 5" by simp
  have b5: "sklearn_load_model good_registry 5 = Inr (constant_model ''Faixa - R$ 6.000-12.000'')"
    by (simp add: good_registry_def)
  from load_model_contract[of registry_without_model "[other_entry]"] a1 a2
  have a: "load_model registry_without_model = ([StError ModelNotFound], Inl StopException)"
    by blast
  have b6: "[2, 5, 3 :: int] \<noteq> []" by simp
  have b7: "sklearn_load_model good_registry (Max (set [2, 5, 3]))
      = Inr (constant_model ''Faixa - R$ 6.000-12.000'')"
    by (simp only: b4 b5)
  from load_model_contract[of good_registry "[other_entry, salario_entry]" salario_entry "[]"
      "[2, 5, 3]" "constant_model ''Faixa - R$ 6.000-12.000''"] b1 b2 b3 b6 b7
  have "load_model good_registry =
       ([LogInfo (ModelLoaded (Max (set [2, 5, 3])))],
        Inr (constant_model ''Faixa - R$ 6.000-12.000'', Max (set [2, 5, 3])))"
    by blast
  then have b: "load_model good_registry =
       ([LogInfo (ModelLoaded 5)], Inr (constant_model ''Faixa - R$ 6.000-12.000'', 5))"
    by (simp only: b4)
  from a1 a2 a b1 b2 b3 b4 b5 b show ?thesis by blast
qed

text \<open>
  The claim as first stated has the loader return whenever a model of the configured
  name exists.  A registry that holds the model and fails to load it makes the loader
  show an error and stop.
\<close>

theorem load_failure_counterexample:
  "search_registered_models registry_refusing_load = Inr [other_entry, salario_entry]
   \<and> name salario_entry = ''salario-model''
   \<and> load_model registry_refusing_load =
       ([StError (ModelLoadError (OtherException ''connection refused'')),
         StInfo CheckRegistryHint], Inl StopException)"
  by (simp add: registry_refusing_load_def salario_entry_def other_entry_def load_model_def
        load_model_body_def try_except_def max_of_def)

section \<open>The options of the form\<close>

text \<open>
  Claim C9.  The options of each of the seven select boxes are values of the
  corresponding column of the table, so each categorical field of a profile that the
  form returns is the value of some line of the table in that column.
\<close>

theorem form_options_from_table:
  "set (genero_options data_template) \<subseteq> set (map genero data_template)
   \<and> set (pcd_options data_template) \<subseteq> set (map pcd data_template)
   \<and> set (ufs data_template) \<subseteq> set (map ufOndeMora data_template)
   \<and> set (cargos data_template) \<subseteq> set (map cargoAtual data_template)
   \<and> set (niveis data_template) \<subseteq> set (map nivel data_template)
   \<and> set (temp_dados data_template) \<subseteq> set (map tempoDeExperienciaDados data_template)
   \<and> set (temp_ti data_template) \<subseteq> set (map tempoDeExperienciaEmTi data_template)
   \<and> (form_returns data_template p \<longrightarrow>
        (\<exists>r\<in>set data_template. genero r = genero p)
        \<and> (\<exists>r\<in>set data_template. pcd r = pcd p)
        \<and> (\<exists>r\<in>set data_template. ufOndeMora r = ufOndeMora p)
        \<and> (\<exists>r\<in>set data_template. cargoAtual r = cargoAtual p)
        \<and> (\<exists>r\<in>set data_template. nivel r = nivel p)
        \<and> (\<exists>r\<in>set data_template. tempoDeExperienciaDados r = tempoDeExperienciaDados p)
        \<and> (\<exists>r\<in>set data_template. tempoDeExperienciaEmTi r = tempoDeExperienciaEmTi p))"
proof -
  have opts: "set (genero_options data_template) = set (map genero data_template)"
    "set (pcd_options data_template) = set (map pcd data_template)"
    "set (ufs data_template) = set (map ufOndeMora data_template)"
    "set (cargos data_template) = set (map cargoAtual data_template)"
    "set (niveis data_template) = set (map nivel data_template)"
    "set (temp_dados data_template) = set (map tempoDeExperienciaDados data_template)"
    "set (temp_ti data_template) = set (map tempoDeExperienciaEmTi data_template)"
    by (simp_all only: genero_options_def pcd_options_def ufs_def cargos_def niveis_def
          temp_dados_def temp_ti_def set_unique set_sort_values)
  have "form_returns data_template p \<longrightarrow>
        (\<exists>r\<in>set data_template. genero r = genero p)
        \<and> (\<exists>r\<in>set data_template. pcd r = pcd p)
        \<and> (\<exists>r\<in>set data_template. ufOndeMora r = ufOndeMora p)
        \<and> (\<exists>r\<in>set data_template. cargoAtual r = cargoAtual p)
        \<and> (\<exists>r\<in>set data_template. nivel r = nivel p)
        \<and> (\<exists>r\<in>set data_template. tempoDeExperienciaDados r = tempoDeExperienciaDados p)
        \<and> (\<exists>r\<in>set data_template. tempoDeExperienciaEmTi r = tempoDeExperienciaEmTi p)"
    unfolding form_returns_def selectbox_returns_def opts by (auto simp: image_iff)
  with opts show ?thesis by simp
qed

theorem form_options_from_table_witness:
  "form_returns small_table engineer
   \<and> (\<exists>r\<in>set small_table. genero r = genero engineer)
   \<and> (\<exists>r\<in>set small_table. pcd r = pcd engineer)
   \<and> (\<exists>r\<in>set small_table. ufOndeMora r = ufOndeMora engineer)
   \<and> (\<exists>r\<in>set small_table. cargoAtual r = cargoAtual engineer)
   \<and> (\<exists>r\<in>set small_table. nivel r = nivel engineer)
   \<and> (\<exists>r\<in>set small_table. tempoDeExperienciaDados r = tempoDeExperienciaDados engineer)
   \<and> (\<exists>r\<in>set small_table. tempoDeExperienciaEmTi r = tempoDeExperienciaEmTi engineer)
   \<and> ufs small_table = [''RJ'', ''SP'']
   \<and> set (ufs small_table) \<subseteq> set (map ufOndeMora small_table)"
proof -
  have u: "ufs small_table = [''RJ'', ''SP'']"
    by (simp add: ufs_def unique_def sort_values_def small_table_def engineer_def
       scientist_def)
  from form_options_from_table[of small_table engineer] form_returns_small u
  show ?thesis by blast
qed

section \<open>The bounds of the age\<close>

text \<open>
  Claim C10.  For a table with at least one line whose least age is at most the
  default 30, the age input has that least age as its lower bound, the constant 100 as
  its upper bound and 30 as its default.  When the least age is above 30 the form
  library refuses the input, and on a table with no line the least age does not
  exist; in both cases the script ends before any form is shown.  The age of every
  profile that the form returns lies between the least age of the table and 100.
\<close>

theorem idade_bounds:
  "(data_template \<noteq> [] \<and> Min (set (map idade data_template)) \<le> 30 \<longrightarrow>
      idade_input data_template =
        Inr \<lparr>min_value = Min (set (map idade data_template)),
             max_value = 100, default_value = 30\<rparr>)
   \<and> (data_template \<noteq> [] \<and> 30 < Min (set (map idade data_template)) \<longrightarrow>
        idade_input data_template = Inl StreamlitAPIException)
   \<and> (data_template = [] \<longrightarrow> idade_input data_template = Inl ValueError)
   \<and> (form_returns data_template p \<longrightarrow>
        data_template \<noteq> []
        \<and> Min (set (map idade data_template)) \<le> idade p \<and> idade p \<le> 100)"
proof (intro conjI impI)
  assume a: "data_template \<noteq> [] \<and> Min (set (map idade data_template)) \<le> 30"
  then have "idade_input data_template
      = number_input (Min (set (map idade data_template))) 100 30"
    by (intro idade_input_nonempty) blast
  with a show "idade_input data_template =
        Inr \<lparr>min_value = Min (set (map idade data_template)),
             max_value = 100, default_value = 30\<rparr>"
    by (simp only: number_input_accepted)
next
  assume a: "data_template \<noteq> [] \<and> 30 < Min (set (map idade data_template))"
  then have "idade_input data_template
      = number_input (Min (set (map idade data_template))) 100 30"
    by (intro idade_input_nonempty) blast
  with a show "idade_input data_template = Inl StreamlitAPIException"
    by (simp only: number_input_refused)
next
  assume "data_template = []"
  then show "idade_input data_template = Inl ValueError"
    by (simp add: idade_input_def series_min_def)
next
  assume fr: "form_returns data_template p"
  then show ne: "data_template \<noteq> []"
    by (auto simp: form_returns_def idade_input_def series_min_def)
  define lo where "lo = Min (set (map idade data_template))"
  from ne have ii: "idade_input data_template = number_input lo 100 30"
    unfolding lo_def by (rule idade_input_nonempty)
  from fr have "case number_input lo 100 30 of Inl e \<Rightarrow> False
      | Inr w \<Rightarrow> number_input_returns w (idade p)"
    by (simp only: form_returns_def ii)
  then have "lo \<le> idade p \<and> idade p \<le> 100"
    by (cases "30 < lo") (simp_all add: number_input_def number_input_returns_def)
  then show "Min (set (map idade data_template)) \<le> idade p" "idade p \<le> 100"
    unfolding lo_def by blast+
qed

theorem idade_bounds_witness:
  "small_table \<noteq> []
   \<and> Min (set (map idade small_table)) = 24
   \<and> (24::int) \<le> 30
   \<and> idade_input small_table = Inr \<lparr>min_value = 24, max_value = 100, default_value = 30\<rparr>
   \<and> form_returns small_table engineer
   \<and> 24 \<le> idade engineer \<and> idade engineer \<le> 100
   \<and> senior_table \<noteq> []
   \<and> Min (set (map idade senior_table)) = 31
   \<and> (30::int) < 31
   \<and> idade_input senior_table = Inl StreamlitAPIException
   \<and> idade_input [] = Inl ValueError"
proof -
  have ne: "small_table \<noteq> []" by (simp add: small_table_def)
  have m: "Min (set (map idade small_table)) = 24"
    by (simp add: small_table_def engineer_def scientist_def)
  have ne': "senior_table \<noteq> []" by (simp add: senior_table_def)
  have m': "Min (set (map idade senior_table)) = 31"
    by (simp add: senior_table_def engineer_def)
  note t = idade_bounds[of small_table engineer]
  note t' = idade_bounds[of senior_table engineer]
  note t'' = idade_bounds[of "[]" engineer]
  have h: "Min (set (map idade small_table)) \<le> 30" unfolding m by simp
  have h': "30 < Min (set (map idade senior_table))" unfolding m' by simp
  from t ne h form_returns_small
  have a: "idade_input small_table =
        Inr \<lparr>min_value = Min (set (map idade small_table)), max_value = 100, default_value = 30\<rparr>
     \<and> Min (set (map idade small_table)) \<le> idade engineer \<and> idade engineer \<le> 100"
    by blast
  then have a': "idade_input small_table =
      Inr \<lparr>min_value = 24, max_value = 100, default_value = 30\<rparr>
     \<and> 24 \<le> idade engineer \<and> idade engineer \<le> 100"
    by (simp only: m)
  from t' ne' h' have b: "idade_input senior_table = Inl StreamlitAPIException" by blast
  from t'' have c: "idade_input [] = Inl ValueError" by blast
  have n1: "(24::int) \<le> 30" and n2: "(30::int) < 31" by simp_all
  from ne m a' form_returns_small ne' m' b c n1 n2 show ?thesis by blast
qed

end
